theory Spec2Isabelle
  imports Main
begin

section \<open>JavaScript values\<close>

text \<open>
  The userinfo response and the decoded ID token are parsed JSON, typed \<open>any\<close> in the
  source. A number is kept as an integer: the callback never computes with one, it only
  tests it for truthiness, and zero is the falsy number. \<open>JSFunction\<close> is a method
  that a value inherits from its prototype, given by its name: JSON holds no function,
  but reading a member of a parsed string can return one.
\<close>

datatype jsval =
    JSUndefined
  | JSNull
  | JSBool bool
  | JSNum int
  | JSStr string
  | JSArr "jsval list"
  | JSObj "(string \<times> jsval) list"
  | JSFunction string

text \<open>\<open>!v\<close> is \<open>\<not> truthy v\<close>.\<close>

fun truthy :: "jsval \<Rightarrow> bool" where
  "truthy JSUndefined = False"
| "truthy JSNull = False"
| "truthy (JSBool b) = b"
| "truthy (JSNum n) = (n \<noteq> 0)"
| "truthy (JSStr s) = (s \<noteq> [])"
| "truthy (JSArr xs) = True"
| "truthy (JSObj kvs) = True"
| "truthy (JSFunction f) = True"

text \<open>The left operand of \<open>??\<close> is replaced exactly when it is null or undefined.\<close>

fun nullish :: "jsval \<Rightarrow> bool" where
  "nullish JSUndefined = True"
| "nullish JSNull = True"
| "nullish v = False"

fun typeof :: "jsval \<Rightarrow> string" where
  "typeof JSUndefined = ''undefined''"
| "typeof JSNull = ''object''"
| "typeof (JSBool b) = ''boolean''"
| "typeof (JSNum n) = ''number''"
| "typeof (JSStr s) = ''string''"
| "typeof (JSArr xs) = ''object''"
| "typeof (JSObj kvs) = ''object''"
| "typeof (JSFunction f) = ''function''"

section \<open>Errors\<close>

text \<open>
  \<open>AuthenticationError\<close> and \<open>OIDCMalformedUserInfoError\<close> are the two errors the
  callback throws itself; \<open>TypeError\<close> is what reading a property of null or undefined
  throws; \<open>Thrown\<close> is an error thrown by a collaborator (the userinfo request, the JWT
  decoder, the team lookup, the email and URL parsers, the provisioner).
\<close>

datatype error =
    AuthenticationError string
  | OIDCMalformedUserInfoError
  | TypeError
  | Thrown string

text \<open>
  The members that the callback reads with a fixed name: \<open>profile.email\<close> and
  \<open>token.email\<close> (line 114), \<open>profile.name\<close> and \<open>profile.username\<close> (line 161),
  \<open>profile.sub\<close> and \<open>profile.id\<close> (line 162), \<open>profile.picture\<close> (lines 177, 178).
\<close>

datatype member = M_email | M_name | M_username | M_sub | M_id | M_picture

fun member_name :: "member \<Rightarrow> string" where
  "member_name M_email = ''email''"
| "member_name M_name = ''name''"
| "member_name M_username = ''username''"
| "member_name M_sub = ''sub''"
| "member_name M_id = ''id''"
| "member_name M_picture = ''picture''"

text \<open>
  \<open>v.m\<close> for one of these members. It throws on null and undefined. An object gives
  its own property, the first binding of the name, and undefined when it has none:
  \<open>Object.prototype\<close> has no member of these names. A string has none of them as an
  own property and inherits exactly one, the method \<open>String.prototype.sub\<close>. A
  function has its \<open>name\<close>. An array, a number and a boolean have none of them, own
  or inherited.
\<close>

fun property :: "jsval \<Rightarrow> member \<Rightarrow> error + jsval" where
  "property JSUndefined m = Inl TypeError"
| "property JSNull m = Inl TypeError"
| "property (JSObj kvs) m =
     Inr (case map_of kvs (member_name m) of None \<Rightarrow> JSUndefined | Some v \<Rightarrow> v)"
| "property (JSStr s) m = Inr (if m = M_sub then JSFunction ''sub'' else JSUndefined)"
| "property (JSFunction f) m = Inr (if m = M_name then JSStr f else JSUndefined)"
| "property v m = Inr JSUndefined"

section \<open>Records of the callback\<close>

datatype http_method = GET | POST

record OIDCEndpoints =
  authorizationURL :: string
  tokenURL :: string
  userInfoURL :: string
  logoutURL :: "string option"
  pkce :: "bool option"

text \<open>The fields of \<open>env\<close> and of \<open>plugin.json\<close> that the callback reads.\<close>

record env =
  OIDC_SCOPES :: string
  OIDC_USERNAME_CLAIM :: string
  APP_NAME :: string
  config_id :: string

record params =
  expires_in :: int
  id_token :: string

record koa_context =
  ip :: string

record team =
  team_id :: string

text \<open>A row of the \<open>AuthenticationProvider\<close> table, with the columns the callback uses.\<close>

record authentication_provider =
  row_name :: string
  row_teamId :: string
  row_providerId :: string

text \<open>The \<open>where\<close> option of \<open>findOne\<close>; \<open>providerId\<close> is absent in the second query.\<close>

record where_clause =
  where_name :: string
  where_teamId :: string
  where_providerId :: "string option"

text \<open>The four descriptors handed to \<open>accountProvisioner\<close>.\<close>

record team_descriptor =
  t_teamId :: "string option"
  t_name :: string
  t_domain :: string
  t_subdomain :: string

record user_descriptor =
  u_name :: jsval
  u_email :: jsval
  u_avatarUrl :: jsval

record authentication_provider_descriptor =
  p_name :: string
  p_providerId :: string

record authentication_descriptor =
  a_providerId :: jsval
  a_accessToken :: string
  a_refreshToken :: string
  a_expiresIn :: int
  a_scopes :: "string list"

record provision_args =
  arg_team :: team_descriptor
  arg_user :: user_descriptor
  arg_authenticationProvider :: authentication_provider_descriptor
  arg_authentication :: authentication_descriptor

text \<open>What \<open>accountProvisioner\<close> returns: the user, the team and the two creation flags.\<close>

record authentication_result =
  result_user :: string
  result_team :: string
  isNewTeam :: bool
  isNewUser :: bool

section \<open>Collaborators\<close>

text \<open>
  The functions the callback imports are parameters of the model. Each one that can
  throw returns \<open>error + _\<close>. \<open>URL_hostname u\<close> is \<open>new URL(u).hostname\<close>, which throws
  on a string that is no URL. \<open>lodash_get\<close> is lodash's \<open>get\<close>. The table is the
  content of \<open>AuthenticationProvider\<close> at the time of the callback.
\<close>

record externals =
  request :: "http_method \<Rightarrow> string \<Rightarrow> string \<Rightarrow> error + jsval"
  JWT_decode :: "string \<Rightarrow> error + jsval"
  getTeamFromContext :: "koa_context \<Rightarrow> error + team option"
  getClientFromContext :: "koa_context \<Rightarrow> string"
  parseEmail :: "jsval \<Rightarrow> error + string"
  AuthenticationProvider_table :: "authentication_provider list"
  URL_hostname :: "string \<Rightarrow> error + string"
  slugifyDomain :: "string \<Rightarrow> string"
  lodash_get :: "jsval \<Rightarrow> string \<Rightarrow> jsval"
  isBase64Url :: "jsval \<Rightarrow> error + bool"
  accountProvisioner :: "string \<Rightarrow> provision_args \<Rightarrow> error + authentication_result"

section \<open>Effects\<close>

text \<open>
  The calls that leave the process or write a log line are recorded, in order, in a
  trace. A computation is the trace it produced together with the value it returned or
  the error it threw.
\<close>

datatype event =
    Request http_method string string
  | LoggerWarn string
  | LoggerError string error
  | LoggerDebug string string jsval
  | GetTeamFromContext
  | FindOne where_clause
  | AccountProvisioner string provision_args

type_synonym 'a io = "event list \<times> (error + 'a)"

definition ret :: "'a \<Rightarrow> 'a io" where
  "ret x = ([], Inr x)"

definition throw :: "error \<Rightarrow> 'a io" where
  "throw e = ([], Inl e)"

definition emit :: "event \<Rightarrow> unit io" where
  "emit ev = ([ev], Inr ())"

definition lift :: "error + 'a \<Rightarrow> 'a io" where
  "lift r = ([], r)"

definition tell :: "event list \<times> 'a \<Rightarrow> 'a io" where
  "tell p = (fst p, Inr (snd p))"

text \<open>Sequencing: a throw skips everything after it and keeps the trace so far.\<close>

definition andThen :: "'a io \<Rightarrow> ('a \<Rightarrow> 'b io) \<Rightarrow> 'b io" where
  "andThen m f =
     (case m of
        (t, Inl e) \<Rightarrow> (t, Inl e)
      | (t, Inr x) \<Rightarrow> (case f x of (t', r) \<Rightarrow> (t @ t', r)))"

section \<open>The callback of the OIDC strategy\<close>

text \<open>\<open>env.OIDC_SCOPES.split(" ")\<close>: the pieces between the separators, empty ones kept.\<close>

fun split_on :: "char \<Rightarrow> string \<Rightarrow> string list" where
  "split_on c [] = [] # []"
| "split_on c (x # xs) =
     (if x = c then [] # split_on c xs
      else (case split_on c xs of [] \<Rightarrow> [x] # [] | w # ws \<Rightarrow> (x # w) # ws))"

text \<open>Lines 82 to 90: the userinfo request, by POST for the listed endpoints.\<close>

definition usePostMethod :: "string list" where
  "usePostMethod = [''https://api.dropboxapi.com/2/openid/userinfo'']"

definition fetch_profile :: "externals \<Rightarrow> OIDCEndpoints \<Rightarrow> string \<Rightarrow> jsval io" where
  "fetch_profile ext endpoints accessToken =
     (let method = (if List.member usePostMethod (userInfoURL endpoints) then POST else GET)
      in andThen (emit (Request method (userInfoURL endpoints) accessToken))
           (\<lambda>_. lift (request ext method (userInfoURL endpoints) accessToken)))"

text \<open>
  Lines 94 to 112: the ID token is decoded inside its own \<open>try\<close>; both the \<open>catch\<close> and
  the check of the decoded value return the empty object.
\<close>

definition decode_token :: "externals \<Rightarrow> string \<Rightarrow> event list \<times> jsval" where
  "decode_token ext id_tok =
     (case JWT_decode ext id_tok of
        Inl err \<Rightarrow> ([LoggerError ''id_token decode threw error: '' err], JSObj [])
      | Inr decoded \<Rightarrow>
          if \<not> truthy decoded \<or> typeof decoded \<noteq> ''object''
          then ([LoggerWarn ''Decoded id_token is not a valid object''], JSObj [])
          else ([], decoded))"

text \<open>Line 114: \<open>profile.email ?? token.email ?? null\<close>.\<close>

definition email_of :: "jsval \<Rightarrow> jsval \<Rightarrow> jsval io" where
  "email_of profile token =
     andThen (lift (property profile M_email)) (\<lambda>a.
       if \<not> nullish a then ret a
       else andThen (lift (property token M_email)) (\<lambda>b.
         ret (if \<not> nullish b then b else JSNull)))"

definition email_missing :: string where
  "email_missing =
     ''An email field was not returned in the profile or id_token parameter, but is required.''"

text \<open>
  \<open>Model.findOne\<close> with a \<open>where\<close> of equalities: the first row that has every listed
  column equal to the given value, or null.
\<close>

definition findOne :: "authentication_provider list \<Rightarrow> where_clause \<Rightarrow> authentication_provider option" where
  "findOne rows w =
     List.find (\<lambda>r. row_name r = where_name w \<and> row_teamId r = where_teamId w \<and>
                  (case where_providerId w of None \<Rightarrow> True | Some d \<Rightarrow> row_providerId r = d)) rows"

text \<open>Lines 127 to 141: the second query runs only when the first returned null.\<close>

definition find_authenticationProvider ::
  "externals \<Rightarrow> team option \<Rightarrow> string \<Rightarrow> event list \<times> authentication_provider option" where
  "find_authenticationProvider ext tm domain =
     (case tm of
        None \<Rightarrow> ([], None)
      | Some t \<Rightarrow>
          (let w1 = \<lparr>where_name = ''oidc'', where_teamId = team_id t, where_providerId = Some domain\<rparr>;
               w2 = \<lparr>where_name = ''oidc'', where_teamId = team_id t, where_providerId = None\<rparr>
           in case findOne (AuthenticationProvider_table ext) w1 of
                Some p \<Rightarrow> ([FindOne w1], Some p)
              | None \<Rightarrow> ([FindOne w1, FindOne w2], findOne (AuthenticationProvider_table ext) w2)))"

record resolved =
  r_email :: jsval
  r_team :: "team option"
  r_client :: string
  r_domain :: string
  r_subdomain :: string
  r_providerId :: string

text \<open>Lines 122 to 153, in the order of the source, for the email that passed line 116.\<close>

definition lookup_provider ::
  "externals \<Rightarrow> OIDCEndpoints \<Rightarrow> koa_context \<Rightarrow> jsval \<Rightarrow> resolved io" where
  "lookup_provider ext endpoints ctx email =
     andThen (emit GetTeamFromContext) (\<lambda>_.
     andThen (lift (getTeamFromContext ext ctx)) (\<lambda>tm.
     let client = getClientFromContext ext ctx in
     andThen (lift (parseEmail ext email)) (\<lambda>domain.
     andThen (tell (find_authenticationProvider ext tm domain)) (\<lambda>authenticationProvider.
     andThen (lift (URL_hostname ext (authorizationURL endpoints))) (\<lambda>hostname.
     let providerId = (case authenticationProvider of
                         Some p \<Rightarrow> row_providerId p
                       | None \<Rightarrow> hostname) in
     if domain = [] then throw OIDCMalformedUserInfoError
     else ret \<lparr>r_email = email, r_team = tm, r_client = client, r_domain = domain,
               r_subdomain = slugifyDomain ext domain, r_providerId = providerId\<rparr>)))))"

text \<open>Lines 114 to 153: the email, its check, and the lookup.\<close>

definition resolve_provider ::
  "externals \<Rightarrow> OIDCEndpoints \<Rightarrow> koa_context \<Rightarrow> jsval \<Rightarrow> jsval \<Rightarrow> resolved io" where
  "resolve_provider ext endpoints ctx profile token =
     andThen (email_of profile token) (\<lambda>email.
     if \<not> truthy email then throw (AuthenticationError email_missing)
     else lookup_provider ext endpoints ctx email)"

definition name_missing :: "string \<Rightarrow> string \<Rightarrow> string" where
  \<open>name_missing claim url =
     ''Neither a '' @ claim @ '', "name" or "username" was returned in the profile loaded from ''
       @ url @ '', but at least one is required.''\<close>

definition id_missing :: "string \<Rightarrow> string" where
  \<open>id_missing url =
     ''A user id was not returned in the profile loaded from '' @ url
       @ '', searched in "sub" and "id" fields.''\<close>

text \<open>Lines 158 to 160: \<open>get(profile, claim) ?? get(token, claim)\<close>.\<close>

definition username_of :: "externals \<Rightarrow> env \<Rightarrow> jsval \<Rightarrow> jsval \<Rightarrow> jsval" where
  "username_of ext e profile token =
     (let u = lodash_get ext profile (OIDC_USERNAME_CLAIM e)
      in if \<not> nullish u then u else lodash_get ext token (OIDC_USERNAME_CLAIM e))"

text \<open>
  Lines 161 to 173: \<open>profile.name || username || profile.username\<close>, then
  \<open>profile.sub ? profile.sub : profile.id\<close>, then the two checks.
\<close>

definition name_and_profileId ::
  "externals \<Rightarrow> env \<Rightarrow> OIDCEndpoints \<Rightarrow> jsval \<Rightarrow> jsval \<Rightarrow> (jsval \<times> jsval) io" where
  "name_and_profileId ext e endpoints profile token =
     (let username = username_of ext e profile token in
      andThen (lift (property profile M_name)) (\<lambda>n.
      andThen (if truthy n then ret n
               else if truthy username then ret username
               else lift (property profile M_username)) (\<lambda>name.
      andThen (lift (property profile M_sub)) (\<lambda>sub.
      andThen (if truthy sub then ret sub else lift (property profile M_id)) (\<lambda>profileId.
      if \<not> truthy name
      then throw (AuthenticationError (name_missing (OIDC_USERNAME_CLAIM e) (userInfoURL endpoints)))
      else if \<not> truthy profileId
      then throw (AuthenticationError (id_missing (userInfoURL endpoints)))
      else ret (name, profileId))))))"

text \<open>Lines 175 to 187: a Base64 data URL in \<open>picture\<close> is logged and replaced by null.\<close>

definition filter_avatarUrl :: "externals \<Rightarrow> jsval \<Rightarrow> jsval \<Rightarrow> jsval io" where
  "filter_avatarUrl ext email profile =
     andThen (lift (property profile M_picture)) (\<lambda>picture.
     if \<not> truthy picture then ret picture
     else andThen (lift (isBase64Url ext picture)) (\<lambda>b.
       if b
       then andThen (emit (LoggerDebug ''authentication''
                             ''Filtering out Base64 data URL from avatar'' email))
              (\<lambda>_. ret JSNull)
       else ret picture))"

text \<open>Lines 114 to 173: everything between the decoding of the token and the avatar.\<close>

definition reconcile ::
  "externals \<Rightarrow> env \<Rightarrow> OIDCEndpoints \<Rightarrow> koa_context \<Rightarrow> jsval \<Rightarrow> jsval
     \<Rightarrow> (resolved \<times> jsval \<times> jsval) io" where
  "reconcile ext e endpoints ctx profile token =
     andThen (resolve_provider ext endpoints ctx profile token) (\<lambda>r.
     andThen (name_and_profileId ext e endpoints profile token) (\<lambda>(name, profileId).
     ret (r, name, profileId)))"

text \<open>Lines 190 to 213: the argument of \<open>accountProvisioner\<close>.\<close>

definition provision_args_of ::
  "env \<Rightarrow> string \<Rightarrow> string \<Rightarrow> params \<Rightarrow> resolved \<Rightarrow> jsval \<Rightarrow> jsval \<Rightarrow> jsval
     \<Rightarrow> provision_args" where
  "provision_args_of e accessToken refreshToken ps r name profileId avatarUrl =
     \<lparr>arg_team = \<lparr>t_teamId = map_option team_id (r_team r), t_name = APP_NAME e,
                  t_domain = r_domain r, t_subdomain = r_subdomain r\<rparr>,
      arg_user = \<lparr>u_name = name, u_email = r_email r, u_avatarUrl = avatarUrl\<rparr>,
      arg_authenticationProvider = \<lparr>p_name = config_id e, p_providerId = r_providerId r\<rparr>,
      arg_authentication = \<lparr>a_providerId = profileId, a_accessToken = accessToken,
                            a_refreshToken = refreshToken, a_expiresIn = expires_in ps,
                            a_scopes = split_on CHR '' '' (OIDC_SCOPES e)\<rparr>\<rparr>"

text \<open>
  Lines 114 to 187 on a profile and a token: what is left to do before the provisioner is
  called.
\<close>

definition identify ::
  "externals \<Rightarrow> env \<Rightarrow> OIDCEndpoints \<Rightarrow> koa_context \<Rightarrow> string \<Rightarrow> string \<Rightarrow> params
     \<Rightarrow> jsval \<Rightarrow> jsval \<Rightarrow> (provision_args \<times> string) io" where
  "identify ext e endpoints ctx accessToken refreshToken ps profile token =
     andThen (reconcile ext e endpoints ctx profile token) (\<lambda>(r, name, profileId).
     andThen (filter_avatarUrl ext (r_email r) profile) (\<lambda>avatarUrl.
     ret (provision_args_of e accessToken refreshToken ps r name profileId avatarUrl,
          r_client r)))"

text \<open>Lines 82 to 187: the body of the \<open>try\<close> up to the call of the provisioner.\<close>

definition prepare ::
  "externals \<Rightarrow> env \<Rightarrow> OIDCEndpoints \<Rightarrow> koa_context \<Rightarrow> string \<Rightarrow> string \<Rightarrow> params
     \<Rightarrow> (provision_args \<times> string) io" where
  "prepare ext e endpoints ctx accessToken refreshToken ps =
     andThen (fetch_profile ext endpoints accessToken) (\<lambda>profile.
     andThen (tell (decode_token ext (id_token ps))) (\<lambda>token.
     identify ext e endpoints ctx accessToken refreshToken ps profile token))"

text \<open>Lines 82 to 214: the whole body of the \<open>try\<close>.\<close>

definition try_body ::
  "externals \<Rightarrow> env \<Rightarrow> OIDCEndpoints \<Rightarrow> koa_context \<Rightarrow> string \<Rightarrow> string \<Rightarrow> params
     \<Rightarrow> (authentication_result \<times> string) io" where
  "try_body ext e endpoints ctx accessToken refreshToken ps =
     andThen (prepare ext e endpoints ctx accessToken refreshToken ps) (\<lambda>(args, client).
     andThen (emit (AccountProvisioner (ip ctx) args)) (\<lambda>_.
     andThen (lift (accountProvisioner ext (ip ctx) args)) (\<lambda>result.
     ret (result, client))))"

text \<open>
  One call of the continuation: \<open>done(err, null)\<close> from the \<open>catch\<close>, or
  \<open>done(null, result.user, {...result, client})\<close>.
\<close>

datatype done_call = Done "error option" "string option" "(authentication_result \<times> string) option"

definition verify ::
  "externals \<Rightarrow> env \<Rightarrow> OIDCEndpoints \<Rightarrow> koa_context \<Rightarrow> string \<Rightarrow> string \<Rightarrow> params
     \<Rightarrow> event list \<times> done_call" where
  "verify ext e endpoints ctx accessToken refreshToken ps =
     (case try_body ext e endpoints ctx accessToken refreshToken ps of
        (t, Inl err) \<Rightarrow> (t, Done (Some err) None None)
      | (t, Inr (result, client)) \<Rightarrow>
          (t, Done None (Some (result_user result)) (Some (result, client))))"

section \<open>Reading a trace\<close>

text \<open>The kinds of event the statements below tell apart.\<close>

fun is_request :: "event \<Rightarrow> bool" where
  "is_request (Request m u a) = True"
| "is_request ev = False"

fun is_lookup :: "event \<Rightarrow> bool" where
  "is_lookup GetTeamFromContext = True"
| "is_lookup (FindOne w) = True"
| "is_lookup ev = False"

fun is_debug :: "event \<Rightarrow> bool" where
  "is_debug (LoggerDebug a b c) = True"
| "is_debug ev = False"

fun is_provision :: "event \<Rightarrow> bool" where
  "is_provision (AccountProvisioner i a) = True"
| "is_provision ev = False"

section \<open>An example environment\<close>

text \<open>
  Concrete collaborators on which the callback can be run: an email parser that returns
  what follows the first \<open>@\<close>, a URL parser for URLs of the shape
  \<open>scheme://host/path\<close>, a slug that keeps what precedes the first dot, a \<open>get\<close> for
  paths of one key of an object, a data-URL check on the \<open>data:\<close> prefix of a string,
  and a provisioner that always returns the same account. The email parser and the
  data-URL check call a string method on their argument: on a value that is no string
  they throw \<open>TypeError\<close>.
\<close>

definition example_parseEmail :: "jsval \<Rightarrow> error + string" where
  "example_parseEmail v =
     (case v of JSStr s \<Rightarrow> Inr (drop 1 (dropWhile (\<lambda>c. c \<noteq> CHR ''@'') s)) | _ \<Rightarrow> Inl TypeError)"

fun after_scheme :: "string \<Rightarrow> string option" where
  "after_scheme (a # b # c # rest) =
     (if [a, b, c] = ''://'' then Some rest else after_scheme (b # c # rest))"
| "after_scheme s = None"

definition example_URL_hostname :: "string \<Rightarrow> error + string" where
  "example_URL_hostname u =
     (case after_scheme u of
        None \<Rightarrow> Inl TypeError
      | Some rest \<Rightarrow> Inr (takeWhile (\<lambda>c. c \<notin> set ''/:?#'') rest))"

definition example_get :: "jsval \<Rightarrow> string \<Rightarrow> jsval" where
  "example_get v k =
     (case v of
        JSObj kvs \<Rightarrow> (case map_of kvs k of None \<Rightarrow> JSUndefined | Some x \<Rightarrow> x)
      | _ \<Rightarrow> JSUndefined)"

definition example_isBase64Url :: "jsval \<Rightarrow> error + bool" where
  "example_isBase64Url v =
     (case v of JSStr s \<Rightarrow> Inr (take 5 s = ''data:'') | _ \<Rightarrow> Inl TypeError)"

definition example_account :: authentication_result where
  "example_account =
     \<lparr>result_user = ''user-1'', result_team = ''team-1'', isNewTeam = False, isNewUser = False\<rparr>"

text \<open>
  The environment is given by the userinfo response, the outcome of the JWT decoder, the
  team of the request and the rows of the provider table.
\<close>

definition example_ext ::
  "error + jsval \<Rightarrow> error + jsval \<Rightarrow> team option \<Rightarrow> authentication_provider list \<Rightarrow> externals" where
  "example_ext profile decoded tm rows =
     \<lparr>request = (\<lambda>m u a. profile),
      JWT_decode = (\<lambda>s. decoded),
      getTeamFromContext = (\<lambda>c. Inr tm),
      getClientFromContext = (\<lambda>c. ''web''),
      parseEmail = example_parseEmail,
      AuthenticationProvider_table = rows,
      URL_hostname = example_URL_hostname,
      slugifyDomain = takeWhile (\<lambda>c. c \<noteq> CHR ''.''),
      lodash_get = example_get,
      isBase64Url = example_isBase64Url,
      accountProvisioner = (\<lambda>i a. Inr example_account)\<rparr>"

definition example_env :: env where
  "example_env =
     \<lparr>OIDC_SCOPES = ''openid profile email'', OIDC_USERNAME_CLAIM = ''preferred_username'',
      APP_NAME = ''Outline'', config_id = ''oidc''\<rparr>"

definition example_endpoints :: OIDCEndpoints where
  "example_endpoints =
     \<lparr>authorizationURL = ''https://idp.example.com/authorize'',
      tokenURL = ''https://idp.example.com/token'',
      userInfoURL = ''https://idp.example.com/userinfo'',
      logoutURL = None, pkce = None\<rparr>"

definition example_params :: params where
  "example_params = \<lparr>expires_in = 3600, id_token = ''header.payload.signature''\<rparr>"

definition example_context :: koa_context where
  "example_context = \<lparr>ip = ''203.0.113.7''\<rparr>"

text \<open>The callback on the example environment.\<close>

definition example_verify ::
  "jsval \<Rightarrow> jsval \<Rightarrow> team option \<Rightarrow> authentication_provider list \<Rightarrow> event list \<times> done_call" where
  "example_verify profile decoded tm rows =
     verify (example_ext (Inr profile) (Inr decoded) tm rows) example_env example_endpoints
       example_context ''access'' ''refresh'' example_params"

section \<open>The claim on the two sources\<close>

text \<open>
  The reading of C1 as it is written: a field is supplied when the userinfo response or
  the decoded token has a truthy value under that name.
\<close>


definition spec_supplies :: "jsval \<Rightarrow> jsval \<Rightarrow> string \<Rightarrow> bool" where
  "spec_supplies profile token k \<longleftrightarrow>
     truthy (example_get profile k) \<or> truthy (example_get token k)"

section \<open>Sequencing and traces\<close>

lemma andThen_ret [simp]: "andThen (ret x) f = f x"
  by (simp add: andThen_def ret_def split: prod.splits)

lemma andThen_throw [simp]: "andThen (throw e) f = throw e"
  by (simp add: andThen_def throw_def)

lemma andThen_lift_Inr [simp]: "andThen (lift (Inr x)) f = f x"
  by (simp add: andThen_def lift_def split: prod.splits)

lemma andThen_lift_Inl [simp]: "andThen (lift (Inl e)) f = throw e"
  by (simp add: andThen_def lift_def throw_def)

lemma andThen_emit: "andThen (emit ev) f = (ev # fst (f ()), snd (f ()))"
  by (simp add: andThen_def emit_def split: prod.splits)

lemma andThen_tell: "andThen (tell p) f = (fst p @ fst (f (snd p)), snd (f (snd p)))"
  by (simp add: andThen_def tell_def split: prod.splits)

lemma andThen_Inr_iff:
  "andThen m f = (t, Inr y) \<longleftrightarrow> (\<exists>t1 x t2. m = (t1, Inr x) \<and> f x = (t2, Inr y) \<and> t = t1 @ t2)"
  by (cases m) (auto simp: andThen_def split: sum.splits prod.splits)

lemma andThen_Inl_iff:
  "andThen m f = (t, Inl e) \<longleftrightarrow>
     m = (t, Inl e) \<or> (\<exists>t1 x t2. m = (t1, Inr x) \<and> f x = (t2, Inl e) \<and> t = t1 @ t2)"
  by (cases m) (auto simp: andThen_def split: sum.splits prod.splits)

lemma andThen_success: "m = (t1, Inr x) \<Longrightarrow> andThen m f = (t1 @ fst (f x), snd (f x))"
  by (simp add: andThen_def split: prod.splits)

lemma andThen_failure: "m = (t1, Inl err) \<Longrightarrow> andThen m f = (t1, Inl err)"
  by (simp add: andThen_def)

lemma events_andThen:
  assumes "list_all P (fst m)" and "\<And>x. list_all P (fst (f x))"
  shows "list_all P (fst (andThen m f))"
proof (cases m)
  case (Pair t r)
  show ?thesis
  proof (cases r)
    case (Inl e)
    with Pair assms(1) show ?thesis by (simp add: andThen_def)
  next
    case (Inr x)
    with Pair assms(1) assms(2) [of x] show ?thesis
      by (cases "f x") (simp add: andThen_def)
  qed
qed

lemma fst_throw [simp]: "fst (throw e) = []"
  by (simp add: throw_def)

lemma fst_ret [simp]: "fst (ret x) = []"
  by (simp add: ret_def)

lemma fst_lift [simp]: "fst (lift r) = []"
  by (simp add: lift_def)

lemma fst_emit [simp]: "fst (emit ev) = [ev]"
  by (simp add: emit_def)

lemma fst_tell [simp]: "fst (tell p) = fst p"
  by (simp add: tell_def)

lemma is_lookup_not_provision: "is_lookup ev \<Longrightarrow> \<not> is_provision ev"
  by (cases ev) simp_all

lemma is_debug_not_provision: "is_debug ev \<Longrightarrow> \<not> is_provision ev"
  by (cases ev) simp_all

section \<open>The trace of each part of the callback\<close>

lemma find_events [simp]: "list_all is_lookup (fst (find_authenticationProvider ext tm d))"
  by (simp add: find_authenticationProvider_def Let_def split: option.splits)

lemma email_of_trace: "fst (email_of profile token) = []"
  by (cases "property profile M_email"; cases "property token M_email")
     (auto simp: email_of_def)

lemma resolve_events:
  "list_all is_lookup (fst (resolve_provider ext endpoints ctx profile token))"
  unfolding resolve_provider_def lookup_provider_def email_of_def Let_def
  by (auto intro!: events_andThen)

lemma names_events: "fst (name_and_profileId ext e endpoints profile token) = []"
proof -
  have "list_all (\<lambda>ev. False) (fst (name_and_profileId ext e endpoints profile token))"
    unfolding name_and_profileId_def Let_def
    by (auto intro!: events_andThen)
  then show ?thesis
    by (cases "fst (name_and_profileId ext e endpoints profile token)") simp_all
qed

lemma avatar_events: "list_all is_debug (fst (filter_avatarUrl ext email profile))"
  unfolding filter_avatarUrl_def
  by (auto intro!: events_andThen)

lemma identify_no_provision:
  "list_all (\<lambda>ev. \<not> is_provision ev)
     (fst (identify ext e endpoints ctx accessToken refreshToken ps profile token))"
proof -
  have 1: "list_all (\<lambda>ev. \<not> is_provision ev)
             (fst (resolve_provider ext endpoints ctx profile token))"
    using resolve_events [of ext endpoints ctx profile token]
    by (auto simp: list_all_iff dest: is_lookup_not_provision)
  have 2: "list_all (\<lambda>ev. \<not> is_provision ev) (fst (filter_avatarUrl ext em profile))" for em
    using avatar_events [of ext em profile]
    by (auto simp: list_all_iff dest: is_debug_not_provision)
  show ?thesis
    unfolding identify_def reconcile_def
    by (auto intro!: events_andThen 1 2 simp: names_events)
qed

lemma fst_andThen:
  "fst (andThen m f) = fst m @ (case snd m of Inl err \<Rightarrow> [] | Inr x \<Rightarrow> fst (f x))"
  by (cases m) (simp add: andThen_def split: sum.splits prod.splits)

lemma fetch_profile_eq:
  "fetch_profile ext endpoints accessToken =
     ([Request (if userInfoURL endpoints = ''https://api.dropboxapi.com/2/openid/userinfo''
                then POST else GET) (userInfoURL endpoints) accessToken],
      request ext (if userInfoURL endpoints = ''https://api.dropboxapi.com/2/openid/userinfo''
                then POST else GET) (userInfoURL endpoints) accessToken)"
  by (simp add: fetch_profile_def usePostMethod_def andThen_emit lift_def Let_def)

lemma decode_token_events: "list_all (\<lambda>ev. \<not> is_request ev) (fst (decode_token ext s))"
  by (simp add: decode_token_def split: sum.splits)

lemma is_lookup_not_request: "is_lookup ev \<Longrightarrow> \<not> is_request ev"
  by (cases ev) simp_all

lemma is_debug_not_request: "is_debug ev \<Longrightarrow> \<not> is_request ev"
  by (cases ev) simp_all

lemma identify_no_request:
  "list_all (\<lambda>ev. \<not> is_request ev)
     (fst (identify ext e endpoints ctx accessToken refreshToken ps profile token))"
proof -
  have 1: "list_all (\<lambda>ev. \<not> is_request ev)
             (fst (resolve_provider ext endpoints ctx profile token))"
    using resolve_events [of ext endpoints ctx profile token]
    by (auto simp: list_all_iff dest: is_lookup_not_request)
  have 2: "list_all (\<lambda>ev. \<not> is_request ev) (fst (filter_avatarUrl ext em profile))" for em
    using avatar_events [of ext em profile]
    by (auto simp: list_all_iff dest: is_debug_not_request)
  show ?thesis
    unfolding identify_def reconcile_def
    by (auto intro!: events_andThen 1 2 simp: names_events)
qed

lemma fst_verify: "fst (verify ext e endpoints ctx accessToken refreshToken ps) =
   fst (try_body ext e endpoints ctx accessToken refreshToken ps)"
  by (simp add: verify_def split: prod.splits sum.splits)

lemma try_body_requests:
  "filter is_request (fst (try_body ext e endpoints ctx accessToken refreshToken ps)) =
     filter is_request (fst (fetch_profile ext endpoints accessToken))"
proof -
  have dec: "filter is_request (fst (decode_token ext (id_token ps))) = []"
    using decode_token_events [of ext "id_token ps"]
    by (simp add: list_all_iff filter_empty_conv)
  have idn: "filter is_request
               (fst (identify ext e endpoints ctx accessToken refreshToken ps profile token)) = []"
    for profile token
    using identify_no_request [of ext e endpoints ctx accessToken refreshToken ps profile token]
    by (simp add: list_all_iff filter_empty_conv)
  have prep: "filter is_request (fst (prepare ext e endpoints ctx accessToken refreshToken ps)) =
     filter is_request (fst (fetch_profile ext endpoints accessToken))"
    unfolding prepare_def by (simp add: fst_andThen dec idn split: sum.splits)
  show ?thesis
    unfolding try_body_def
    by (simp add: fst_andThen prep andThen_emit split: sum.splits prod.splits)
qed

section \<open>The userinfo request\<close>

text \<open>
  C8. The callback sends exactly one userinfo request. It is a POST exactly when the
  configured userinfo URL is in the list \<open>usePostMethod\<close>, whose only member is
  the Dropbox endpoint, and a GET for every other URL.
\<close>

theorem userinfo_method:
  "usePostMethod = [''https://api.dropboxapi.com/2/openid/userinfo''] \<and>
   filter is_request (fst (verify ext e endpoints ctx accessToken refreshToken ps)) =
     [Request (if userInfoURL endpoints = ''https://api.dropboxapi.com/2/openid/userinfo''
               then POST else GET) (userInfoURL endpoints) accessToken]"
  by (simp add: usePostMethod_def fst_verify try_body_requests fetch_profile_eq)

theorem userinfo_method_witness:
  "filter is_request (fst (example_verify (JSObj []) (JSObj []) None [])) =
     [Request GET ''https://idp.example.com/userinfo'' ''access'']"
  using userinfo_method [of "example_ext (Inr (JSObj [])) (Inr (JSObj [])) None []" example_env
      example_endpoints example_context "''access''" "''refresh''" example_params]
  by (simp add: example_verify_def example_endpoints_def)

lemma snd_andThen:
  "snd (andThen m f) = (case snd m of Inl err \<Rightarrow> Inl err | Inr x \<Rightarrow> snd (f x))"
  by (cases m) (simp add: andThen_def split: sum.splits prod.splits)

lemma decode_token_no_provision:
  "list_all (\<lambda>ev. \<not> is_provision ev) (fst (decode_token ext s))"
  by (simp add: decode_token_def split: sum.splits)

lemma prepare_no_provision:
  "list_all (\<lambda>ev. \<not> is_provision ev)
     (fst (prepare ext e endpoints ctx accessToken refreshToken ps))"
  unfolding prepare_def
  by (auto intro!: events_andThen identify_no_provision decode_token_no_provision
           simp: fetch_profile_eq)

lemma verify_of_failure:
  "prepare ext e endpoints ctx accessToken refreshToken ps = (t, Inl err) \<Longrightarrow>
   verify ext e endpoints ctx accessToken refreshToken ps = (t, Done (Some err) None None)"
  by (simp add: verify_def try_body_def andThen_failure)

lemma verify_of_success:
  "prepare ext e endpoints ctx accessToken refreshToken ps = (t, Inr (args, client)) \<Longrightarrow>
   verify ext e endpoints ctx accessToken refreshToken ps =
     (t @ [AccountProvisioner (ip ctx) args],
      case accountProvisioner ext (ip ctx) args of
        Inl err \<Rightarrow> Done (Some err) None None
      | Inr result \<Rightarrow> Done None (Some (result_user result)) (Some (result, client)))"
  by (cases "accountProvisioner ext (ip ctx) args")
     (simp_all add: verify_def try_body_def andThen_success andThen_emit throw_def ret_def)

section \<open>Failures before the provisioner\<close>

text \<open>
  C9. When the userinfo request, the reconciliation of the claims or the resolution of the
  provider fails, the callback ends with \<open>done(err, null)\<close> carrying that error, and
  \<open>accountProvisioner\<close> has not been called: the trace holds no provisioning event. A
  failure and a success call the continuation differently: \<open>done(err, null)\<close> in the
  one case, \<open>done(null, result.user, {...result, client})\<close> in the other.
\<close>

theorem failure_reaches_done:
  "(prepare ext e endpoints ctx accessToken refreshToken ps = (t, Inl err) \<longrightarrow>
      verify ext e endpoints ctx accessToken refreshToken ps = (t, Done (Some err) None None) \<and>
      list_all (\<lambda>ev. \<not> is_provision ev) t) \<and>
   ((\<exists>err'. snd (verify ext e endpoints ctx accessToken refreshToken ps) =
        Done (Some err') None None) \<or>
    (\<exists>result client. snd (verify ext e endpoints ctx accessToken refreshToken ps) =
        Done None (Some (result_user result)) (Some (result, client))))"
proof (intro conjI impI)
  assume f: "prepare ext e endpoints ctx accessToken refreshToken ps = (t, Inl err)"
  then show "verify ext e endpoints ctx accessToken refreshToken ps = (t, Done (Some err) None None)"
    by (rule verify_of_failure)
  from f prepare_no_provision [of ext e endpoints ctx accessToken refreshToken ps]
  show "list_all (\<lambda>ev. \<not> is_provision ev) t" by simp
next
  obtain t r where p: "prepare ext e endpoints ctx accessToken refreshToken ps = (t, r)"
    by (cases "prepare ext e endpoints ctx accessToken refreshToken ps")
  show "(\<exists>err'. snd (verify ext e endpoints ctx accessToken refreshToken ps) =
        Done (Some err') None None) \<or>
    (\<exists>result client. snd (verify ext e endpoints ctx accessToken refreshToken ps) =
        Done None (Some (result_user result)) (Some (result, client)))"
  proof (cases r)
    case (Inl err)
    with p show ?thesis by (simp add: verify_of_failure)
  next
    case (Inr ac)
    with p show ?thesis
      by (cases ac; cases "accountProvisioner ext (ip ctx) (fst ac)")
         (auto simp: verify_of_success)
  qed
qed


theorem failure_reaches_done_witness:
  "verify (example_ext (Inl (Thrown ''userinfo request failed'')) (Inr (JSObj [])) None [])
          example_env example_endpoints example_context ''access'' ''refresh'' example_params
     = ([Request GET ''https://idp.example.com/userinfo'' ''access''],
        Done (Some (Thrown ''userinfo request failed'')) None None)"
proof -
  have "prepare (example_ext (Inl (Thrown ''userinfo request failed'')) (Inr (JSObj [])) None [])
          example_env example_endpoints example_context ''access'' ''refresh'' example_params
     = ([Request GET ''https://idp.example.com/userinfo'' ''access''],
        Inl (Thrown ''userinfo request failed''))"
    by (simp add: prepare_def fetch_profile_eq example_ext_def example_endpoints_def
          andThen_failure)
  with failure_reaches_done [of "example_ext (Inl (Thrown ''userinfo request failed'')) (Inr (JSObj [])) None []"
          example_env example_endpoints example_context "''access''" "''refresh''" example_params
          "[Request GET ''https://idp.example.com/userinfo'' ''access'']"
          "Thrown ''userinfo request failed''"]
  show ?thesis by simp
qed

lemma snd_verify:
  "snd (verify ext e endpoints ctx accessToken refreshToken ps) =
     (case snd (try_body ext e endpoints ctx accessToken refreshToken ps) of
        Inl err \<Rightarrow> Done (Some err) None None
      | Inr (result, client) \<Rightarrow> Done None (Some (result_user result)) (Some (result, client)))"
  by (simp add: verify_def split: prod.splits sum.splits)

lemma find_JWT_decode:
  "find_authenticationProvider (ext\<lparr>JWT_decode := f\<rparr>) tm d =
   find_authenticationProvider ext tm d"
  by (simp add: find_authenticationProvider_def Let_def cong: option.case_cong)

lemma resolve_JWT_decode:
  "resolve_provider (ext\<lparr>JWT_decode := f\<rparr>) endpoints ctx profile token =
   resolve_provider ext endpoints ctx profile token"
  by (simp add: resolve_provider_def lookup_provider_def find_JWT_decode Let_def
        cong: if_cong option.case_cong)

lemma names_JWT_decode:
  "name_and_profileId (ext\<lparr>JWT_decode := f\<rparr>) e endpoints profile token =
   name_and_profileId ext e endpoints profile token"
  by (simp add: name_and_profileId_def username_of_def Let_def cong: if_cong)

lemma avatar_JWT_decode:
  "filter_avatarUrl (ext\<lparr>JWT_decode := f\<rparr>) email profile =
   filter_avatarUrl ext email profile"
  by (simp add: filter_avatarUrl_def cong: if_cong)

lemma identify_JWT_decode:
  "identify (ext\<lparr>JWT_decode := f\<rparr>) e endpoints ctx accessToken refreshToken ps profile token =
   identify ext e endpoints ctx accessToken refreshToken ps profile token"
  by (simp add: identify_def reconcile_def resolve_JWT_decode names_JWT_decode avatar_JWT_decode)

lemma fetch_profile_JWT_decode:
  "fetch_profile (ext\<lparr>JWT_decode := f\<rparr>) endpoints accessToken =
   fetch_profile ext endpoints accessToken"
  by (simp add: fetch_profile_def)

lemma decode_token_failed:
  assumes "(\<exists>err. JWT_decode ext s = Inl err) \<or>
           (\<exists>decoded. JWT_decode ext s = Inr decoded \<and>
                      (\<not> truthy decoded \<or> typeof decoded \<noteq> ''object''))"
  shows "snd (decode_token ext s) = JSObj []"
  using assms by (auto simp: decode_token_def)

lemma decode_token_empty:
  "decode_token (ext\<lparr>JWT_decode := \<lambda>s. Inr (JSObj [])\<rparr>) s = ([], JSObj [])"
  by (simp add: decode_token_def)

text \<open>The equations that run the callback on a concrete input.\<close>

lemmas callback_defs =
  verify_def try_body_def prepare_def identify_def reconcile_def resolve_provider_def
  lookup_provider_def
  name_and_profileId_def username_of_def filter_avatarUrl_def email_of_def
  find_authenticationProvider_def findOne_def decode_token_def fetch_profile_def
  usePostMethod_def provision_args_of_def andThen_def emit_def tell_def lift_def ret_def throw_def
  example_verify_def example_ext_def example_env_def example_endpoints_def
  example_params_def example_context_def example_parseEmail_def example_URL_hostname_def
  example_get_def example_isBase64Url_def example_account_def
  email_missing_def name_missing_def id_missing_def Let_def

section \<open>Decoding the ID token\<close>

text \<open>
  C5. Decoding the ID token is best-effort. When \<open>JWT.decode\<close> throws, or returns a
  falsy value or a value that is no object, the token claims are the empty object and the
  callback goes on: it ends exactly as it does with a decoder that returns the empty
  object, so the failed decoding alone never makes it fail.
\<close>

theorem decode_best_effort:
  assumes "(\<exists>err. JWT_decode ext (id_token ps) = Inl err) \<or>
           (\<exists>decoded. JWT_decode ext (id_token ps) = Inr decoded \<and>
                      (\<not> truthy decoded \<or> typeof decoded \<noteq> ''object''))"
  shows "snd (decode_token ext (id_token ps)) = JSObj [] \<and>
         snd (verify ext e endpoints ctx accessToken refreshToken ps) =
         snd (verify (ext\<lparr>JWT_decode := \<lambda>s. Inr (JSObj [])\<rparr>) e endpoints ctx
                accessToken refreshToken ps)"
proof
  show tok: "snd (decode_token ext (id_token ps)) = JSObj []"
    using assms by (rule decode_token_failed)
  have "snd (prepare ext e endpoints ctx accessToken refreshToken ps) =
        snd (prepare (ext\<lparr>JWT_decode := \<lambda>s. Inr (JSObj [])\<rparr>) e endpoints ctx
               accessToken refreshToken ps)"
    by (simp add: prepare_def snd_andThen andThen_tell tok decode_token_empty
          identify_JWT_decode fetch_profile_JWT_decode split: sum.splits)
  then have "snd (try_body ext e endpoints ctx accessToken refreshToken ps) =
        snd (try_body (ext\<lparr>JWT_decode := \<lambda>s. Inr (JSObj [])\<rparr>) e endpoints ctx
               accessToken refreshToken ps)"
    by (simp add: try_body_def snd_andThen)
  then show "snd (verify ext e endpoints ctx accessToken refreshToken ps) =
         snd (verify (ext\<lparr>JWT_decode := \<lambda>s. Inr (JSObj [])\<rparr>) e endpoints ctx
                accessToken refreshToken ps)"
    by (simp add: snd_verify)
qed


theorem decode_best_effort_witness:
  "snd (decode_token (example_ext (Inr (JSObj [(''email'', JSStr ''user@acme.io''),
          (''name'', JSStr ''Ann''), (''sub'', JSStr ''s1'')])) (Inr (JSStr ''not json'')) None [])
        (id_token example_params)) = JSObj [] \<and>
   snd (example_verify (JSObj [(''email'', JSStr ''user@acme.io''), (''name'', JSStr ''Ann''),
                          (''sub'', JSStr ''s1'')]) (JSStr ''not json'') None []) =
       Done None (Some ''user-1'') (Some (example_account, ''web''))"
  using decode_best_effort [of "example_ext (Inr (JSObj [(''email'', JSStr ''user@acme.io''),
          (''name'', JSStr ''Ann''), (''sub'', JSStr ''s1'')])) (Inr (JSStr ''not json'')) None []"
          example_params example_env example_endpoints example_context "''access''" "''refresh''"]
  by (simp add: callback_defs)

section \<open>What a successful run went through\<close>

lemma email_of_eq:
  assumes "property profile M_email = Inr pe" and "property token M_email = Inr te"
  shows "email_of profile token =
           ([], Inr (if \<not> nullish pe then pe else if \<not> nullish te then te else JSNull))"
  using assms by (simp add: email_of_def ret_def)

lemma resolve_email_missing:
  assumes "email_of profile token = ([], Inr email)" and "\<not> truthy email"
  shows "resolve_provider ext endpoints ctx profile token =
           ([], Inl (AuthenticationError email_missing))"
  using assms by (simp add: resolve_provider_def andThen_def throw_def)

lemma resolve_success:
  assumes "resolve_provider ext endpoints ctx profile token = (t, Inr r)"
  shows "\<exists>tm hostname.
           email_of profile token = ([], Inr (r_email r)) \<and> truthy (r_email r) \<and>
           getTeamFromContext ext ctx = Inr tm \<and>
           parseEmail ext (r_email r) = Inr (r_domain r) \<and> r_domain r \<noteq> [] \<and>
           URL_hostname ext (authorizationURL endpoints) = Inr hostname \<and>
           t = GetTeamFromContext # fst (find_authenticationProvider ext tm (r_domain r)) \<and>
           r = \<lparr>r_email = r_email r, r_team = tm, r_client = getClientFromContext ext ctx,
                 r_domain = r_domain r, r_subdomain = slugifyDomain ext (r_domain r),
                 r_providerId = (case snd (find_authenticationProvider ext tm (r_domain r)) of
                     Some p \<Rightarrow> row_providerId p | None \<Rightarrow> hostname)\<rparr>"
  using assms email_of_trace [of profile token]
  unfolding resolve_provider_def lookup_provider_def Let_def
  by (auto simp: andThen_Inr_iff ret_def throw_def lift_def emit_def tell_def split: if_splits)

lemma names_success:
  assumes "name_and_profileId ext e endpoints profile token = (t, Inr (name, profileId))"
  shows "truthy name \<and> truthy profileId"
  using assms unfolding name_and_profileId_def Let_def
  by (auto simp: andThen_Inr_iff ret_def throw_def lift_def split: if_splits)

lemma identify_success:
  assumes "identify ext e endpoints ctx accessToken refreshToken ps profile token =
             (t, Inr (args, client))"
  shows "\<exists>r name profileId avatarUrl t1 t2.
           resolve_provider ext endpoints ctx profile token = (t1, Inr r) \<and>
           name_and_profileId ext e endpoints profile token = ([], Inr (name, profileId)) \<and>
           filter_avatarUrl ext (r_email r) profile = (t2, Inr avatarUrl) \<and>
           t = t1 @ t2 \<and>
           args = provision_args_of e accessToken refreshToken ps r name profileId avatarUrl \<and>
           client = r_client r"
proof -
  from assms obtain t1 x t2 where
    rec: "reconcile ext e endpoints ctx profile token = (t1, Inr x)" and
    rest: "(case x of (r, name, profileId) \<Rightarrow>
             andThen (filter_avatarUrl ext (r_email r) profile) (\<lambda>avatarUrl.
               ret (provision_args_of e accessToken refreshToken ps r name profileId avatarUrl,
                    r_client r))) = (t2, Inr (args, client))" and
    t: "t = t1 @ t2"
    unfolding identify_def andThen_Inr_iff by blast
  obtain r name profileId where x: "x = (r, name, profileId)" by (cases x)
  from rec obtain ta tb where
    res: "resolve_provider ext endpoints ctx profile token = (ta, Inr r)" and
    nm: "name_and_profileId ext e endpoints profile token = (tb, Inr (name, profileId))" and
    t1: "t1 = ta @ tb"
    unfolding reconcile_def x andThen_Inr_iff
    by (auto simp: ret_def split: prod.splits)
  from nm names_events [of ext e endpoints profile token] have tb: "tb = []" by simp
  from rest x obtain avatarUrl where
    av: "filter_avatarUrl ext (r_email r) profile = (t2, Inr avatarUrl)" and
    args: "args = provision_args_of e accessToken refreshToken ps r name profileId avatarUrl" and
    cl: "client = r_client r"
    by (auto simp: andThen_Inr_iff ret_def)
  from res nm av t t1 tb args cl show ?thesis by auto
qed

lemma prepare_eq:
  assumes "snd (fetch_profile ext endpoints accessToken) = Inr profile"
  shows "prepare ext e endpoints ctx accessToken refreshToken ps =
           (fst (fetch_profile ext endpoints accessToken) @ fst (decode_token ext (id_token ps)) @
              fst (identify ext e endpoints ctx accessToken refreshToken ps profile
                     (snd (decode_token ext (id_token ps)))),
            snd (identify ext e endpoints ctx accessToken refreshToken ps profile
                     (snd (decode_token ext (id_token ps)))))"
proof -
  have f: "fetch_profile ext endpoints accessToken =
             (fst (fetch_profile ext endpoints accessToken), Inr profile)"
    using assms by (cases "fetch_profile ext endpoints accessToken") simp
  show ?thesis
    unfolding prepare_def
    by (subst andThen_success [OF f]) (simp add: andThen_tell)
qed

lemma identify_of_resolve_failure:
  assumes "resolve_provider ext endpoints ctx profile token = (t, Inl err)"
  shows "identify ext e endpoints ctx accessToken refreshToken ps profile token = (t, Inl err)"
  using assms by (simp add: identify_def reconcile_def andThen_failure)

lemma resolve_of_email:
  assumes "email_of profile token = ([], Inr email)" and "truthy email"
  shows "resolve_provider ext endpoints ctx profile token =
           lookup_provider ext endpoints ctx email"
  using assms by (simp add: resolve_provider_def andThen_def split: prod.splits)

lemma lookup_eq:
  assumes "getTeamFromContext ext ctx = Inr tm"
    and "parseEmail ext email = Inr domain"
    and "URL_hostname ext (authorizationURL endpoints) = Inr hostname"
  shows "lookup_provider ext endpoints ctx email =
           (GetTeamFromContext # fst (find_authenticationProvider ext tm domain),
            if domain = [] then Inl OIDCMalformedUserInfoError
            else Inr \<lparr>r_email = email, r_team = tm, r_client = getClientFromContext ext ctx,
                 r_domain = domain, r_subdomain = slugifyDomain ext domain,
                 r_providerId = (case snd (find_authenticationProvider ext tm domain) of
                     Some p \<Rightarrow> row_providerId p | None \<Rightarrow> hostname)\<rparr>)"
  using assms
  by (simp add: lookup_provider_def andThen_def emit_def tell_def
        lift_def ret_def throw_def Let_def split: prod.splits)

lemma lookup_email:
  assumes "lookup_provider ext endpoints ctx email = (t, Inr r)"
  shows "r_email r = email"
  using assms unfolding lookup_provider_def Let_def
  by (auto simp: andThen_Inr_iff ret_def throw_def lift_def emit_def tell_def split: if_splits)

lemma identify_of_names_failure:
  assumes "resolve_provider ext endpoints ctx profile token = (t1, Inr r)"
    and "name_and_profileId ext e endpoints profile token = ([], Inl err)"
  shows "identify ext e endpoints ctx accessToken refreshToken ps profile token = (t1, Inl err)"
proof -
  from assms have "reconcile ext e endpoints ctx profile token = (t1, Inl err)"
    by (simp add: reconcile_def andThen_def)
  then show ?thesis by (simp add: identify_def andThen_failure)
qed

lemma identify_of_parts:
  assumes "resolve_provider ext endpoints ctx profile token = (t1, Inr r)"
    and "name_and_profileId ext e endpoints profile token = ([], Inr (name, profileId))"
    and "filter_avatarUrl ext (r_email r) profile = (t2, res)"
  shows "identify ext e endpoints ctx accessToken refreshToken ps profile token =
           (t1 @ t2,
            case res of
              Inl err \<Rightarrow> Inl err
            | Inr avatarUrl \<Rightarrow>
                Inr (provision_args_of e accessToken refreshToken ps r name profileId avatarUrl,
                     r_client r))"
proof -
  from assms(1,2) have rec: "reconcile ext e endpoints ctx profile token =
                          (t1, Inr (r, name, profileId))"
    by (simp add: reconcile_def andThen_def ret_def)
  show ?thesis
    unfolding identify_def
    by (subst andThen_success [OF rec]) (simp add: assms(3) andThen_def ret_def split: sum.splits)
qed


section \<open>The email\<close>

text \<open>
  C10. When \<open>profile.email\<close> is the empty string, the callback fails with the
  email-missing error whatever the ID token holds: \<open>??\<close> keeps the empty string, which
  is neither null nor undefined, and \<open>!email\<close> rejects it. Nothing is looked up and
  nothing is provisioned: the trace ends with the decoding of the token.
\<close>

theorem empty_profile_email_rejected:
  assumes "snd (fetch_profile ext endpoints accessToken) = Inr profile"
    and "property profile M_email = Inr (JSStr [])"
  shows "verify ext e endpoints ctx accessToken refreshToken ps =
           (fst (fetch_profile ext endpoints accessToken) @ fst (decode_token ext (id_token ps)),
            Done (Some (AuthenticationError email_missing)) None None)"
proof -
  let ?token = "snd (decode_token ext (id_token ps))"
  have "email_of profile ?token = ([], Inr (JSStr []))"
    using assms(2) by (simp add: email_of_def ret_def)
  then have "resolve_provider ext endpoints ctx profile ?token =
               ([], Inl (AuthenticationError email_missing))"
    by (rule resolve_email_missing) simp
  then have "identify ext e endpoints ctx accessToken refreshToken ps profile ?token =
               ([], Inl (AuthenticationError email_missing))"
    by (rule identify_of_resolve_failure)
  then have "prepare ext e endpoints ctx accessToken refreshToken ps =
           (fst (fetch_profile ext endpoints accessToken) @ fst (decode_token ext (id_token ps)),
            Inl (AuthenticationError email_missing))"
    by (simp add: prepare_eq [OF assms(1)])
  then show ?thesis by (rule verify_of_failure)
qed

theorem empty_profile_email_rejected_witness:
  "example_verify (JSObj [(''email'', JSStr ''''), (''name'', JSStr ''Ann''), (''sub'', JSStr ''s1'')])
     (JSObj [(''email'', JSStr ''user@acme.io'')]) None [] =
     ([Request GET ''https://idp.example.com/userinfo'' ''access''],
      Done (Some (AuthenticationError email_missing)) None None)"
  using empty_profile_email_rejected [of
      "example_ext (Inr (JSObj [(''email'', JSStr ''''), (''name'', JSStr ''Ann''),
                                (''sub'', JSStr ''s1'')]))
                   (Inr (JSObj [(''email'', JSStr ''user@acme.io'')])) None []"
      example_endpoints "''access''"
      "JSObj [(''email'', JSStr ''''), (''name'', JSStr ''Ann''), (''sub'', JSStr ''s1'')]"
      example_env example_context "''refresh''" example_params]
  by (simp add: example_verify_def fetch_profile_eq decode_token_def example_ext_def
        example_endpoints_def)

text \<open>
  C2. With a userinfo response whose \<open>email\<close> is \<open>pe\<close> and a token whose
  \<open>email\<close> is \<open>te\<close>, the email selected is \<open>pe\<close> when \<open>pe\<close> is present (neither
  null nor undefined) and \<open>te\<close> otherwise. The email handed to the provisioner is the
  selected one, and it is truthy. When the selected email is missing or falsy, which is
  the case when neither source supplies one, the callback fails with the email-missing
  \<open>AuthenticationError\<close> and the provisioner is not called: the trace ends with the
  decoding of the token. When the selected email is truthy, the check of line 116
  passes and lines 122 to 153 run on it; when they, the name and subject checks and the
  avatar filter succeed, the provisioner's argument is built with that email.
\<close>

theorem email_selection:
  assumes "snd (fetch_profile ext endpoints accessToken) = Inr profile"
    and "property profile M_email = Inr pe"
    and "property (snd (decode_token ext (id_token ps))) M_email = Inr te"
  shows "(prepare ext e endpoints ctx accessToken refreshToken ps = (t, Inr (args, client)) \<longrightarrow>
            u_email (arg_user args) = (if \<not> nullish pe then pe else te) \<and>
            truthy (u_email (arg_user args))) \<and>
         (\<not> truthy (if \<not> nullish pe then pe else te) \<longrightarrow>
            verify ext e endpoints ctx accessToken refreshToken ps =
              (fst (fetch_profile ext endpoints accessToken) @
                 fst (decode_token ext (id_token ps)),
               Done (Some (AuthenticationError email_missing)) None None)) \<and>
         (truthy (if \<not> nullish pe then pe else te) \<longrightarrow>
            resolve_provider ext endpoints ctx profile (snd (decode_token ext (id_token ps))) =
              lookup_provider ext endpoints ctx (if \<not> nullish pe then pe else te)) \<and>
         (truthy (if \<not> nullish pe then pe else te) \<and>
          lookup_provider ext endpoints ctx (if \<not> nullish pe then pe else te) = (tlk, Inr r) \<and>
          name_and_profileId ext e endpoints profile (snd (decode_token ext (id_token ps))) =
            ([], Inr (name, profileId)) \<and>
          filter_avatarUrl ext (if \<not> nullish pe then pe else te) profile =
            (tav, Inr avatarUrl) \<longrightarrow>
            prepare ext e endpoints ctx accessToken refreshToken ps =
              (fst (fetch_profile ext endpoints accessToken) @
                 fst (decode_token ext (id_token ps)) @ tlk @ tav,
               Inr (provision_args_of e accessToken refreshToken ps r name profileId avatarUrl,
                    r_client r)) \<and>
            u_email (arg_user (provision_args_of e accessToken refreshToken ps r name profileId
                                 avatarUrl)) = (if \<not> nullish pe then pe else te))"
proof -
  let ?token = "snd (decode_token ext (id_token ps))"
  let ?sel = "if \<not> nullish pe then pe else te"
  let ?sel3 = "if \<not> nullish pe then pe else if \<not> nullish te then te else JSNull"
  have em3: "email_of profile ?token = ([], Inr ?sel3)"
    using assms(2,3) by (rule email_of_eq)
  have same: "truthy ?sel \<Longrightarrow> ?sel3 = ?sel"
    by (cases te) auto
  have falsy: "\<not> truthy ?sel \<Longrightarrow> \<not> truthy ?sel3"
    by auto
  have cont: "resolve_provider ext endpoints ctx profile ?token =
                lookup_provider ext endpoints ctx ?sel" if "truthy ?sel"
  proof -
    from that same have "email_of profile ?token = ([], Inr ?sel)" using em3 by simp
    then show ?thesis using that by (rule resolve_of_email)
  qed
  have a: "u_email (arg_user args) = ?sel \<and> truthy (u_email (arg_user args))"
    if ok: "prepare ext e endpoints ctx accessToken refreshToken ps = (t, Inr (args, client))"
  proof -
    from ok have "snd (identify ext e endpoints ctx accessToken refreshToken ps profile ?token) =
                 Inr (args, client)"
      by (simp add: prepare_eq [OF assms(1)])
    then obtain t' where "identify ext e endpoints ctx accessToken refreshToken ps profile ?token =
                 (t', Inr (args, client))"
      by (cases "identify ext e endpoints ctx accessToken refreshToken ps profile ?token") simp
    from identify_success [OF this] obtain r' name' profileId' avatarUrl' tlk' where
      res: "resolve_provider ext endpoints ctx profile ?token = (tlk', Inr r')" and
      args: "args = provision_args_of e accessToken refreshToken ps r' name' profileId' avatarUrl'"
      by blast
    from resolve_success [OF res] em3 have e3: "r_email r' = ?sel3" and tr: "truthy (r_email r')"
      by auto
    from e3 tr have "truthy ?sel" by (auto split: if_splits)
    with same e3 have "r_email r' = ?sel" by simp
    with tr args show ?thesis by (simp add: provision_args_of_def)
  qed
  have b: "verify ext e endpoints ctx accessToken refreshToken ps =
              (fst (fetch_profile ext endpoints accessToken) @
                 fst (decode_token ext (id_token ps)),
               Done (Some (AuthenticationError email_missing)) None None)"
    if no: "\<not> truthy ?sel"
  proof -
    from em3 falsy [OF no] have "resolve_provider ext endpoints ctx profile ?token =
               ([], Inl (AuthenticationError email_missing))"
      by (rule resolve_email_missing)
    then have "identify ext e endpoints ctx accessToken refreshToken ps profile ?token =
               ([], Inl (AuthenticationError email_missing))"
      by (rule identify_of_resolve_failure)
    then have "prepare ext e endpoints ctx accessToken refreshToken ps =
           (fst (fetch_profile ext endpoints accessToken) @ fst (decode_token ext (id_token ps)),
            Inl (AuthenticationError email_missing))"
      by (simp add: prepare_eq [OF assms(1)])
    then show ?thesis by (rule verify_of_failure)
  qed
  have d: "prepare ext e endpoints ctx accessToken refreshToken ps =
              (fst (fetch_profile ext endpoints accessToken) @
                 fst (decode_token ext (id_token ps)) @ tlk @ tav,
               Inr (provision_args_of e accessToken refreshToken ps r name profileId avatarUrl,
                    r_client r)) \<and>
            u_email (arg_user (provision_args_of e accessToken refreshToken ps r name profileId
                                 avatarUrl)) = ?sel"
    if h: "truthy ?sel \<and>
          lookup_provider ext endpoints ctx ?sel = (tlk, Inr r) \<and>
          name_and_profileId ext e endpoints profile ?token = ([], Inr (name, profileId)) \<and>
          filter_avatarUrl ext ?sel profile = (tav, Inr avatarUrl)"
  proof -
    from h have tr: "truthy ?sel"
      and lk: "lookup_provider ext endpoints ctx ?sel = (tlk, Inr r)"
      and nm: "name_and_profileId ext e endpoints profile ?token = ([], Inr (name, profileId))"
      and av: "filter_avatarUrl ext ?sel profile = (tav, Inr avatarUrl)"
      by blast+
    from lookup_email [OF lk] have re: "r_email r = ?sel" .
    from cont [OF tr] lk have res: "resolve_provider ext endpoints ctx profile ?token = (tlk, Inr r)"
      by simp
    from av re have av': "filter_avatarUrl ext (r_email r) profile = (tav, Inr avatarUrl)"
      by simp
    from identify_of_parts [OF res nm av', of accessToken refreshToken ps]
    have "identify ext e endpoints ctx accessToken refreshToken ps profile ?token =
            (tlk @ tav,
             Inr (provision_args_of e accessToken refreshToken ps r name profileId avatarUrl,
                  r_client r))"
      by simp
    then have "prepare ext e endpoints ctx accessToken refreshToken ps =
              (fst (fetch_profile ext endpoints accessToken) @
                 fst (decode_token ext (id_token ps)) @ tlk @ tav,
               Inr (provision_args_of e accessToken refreshToken ps r name profileId avatarUrl,
                    r_client r))"
      by (simp add: prepare_eq [OF assms(1)])
    with re show ?thesis by (simp add: provision_args_of_def)
  qed
  from a b cont d show ?thesis by blast
qed


theorem email_selection_witness:
  "prepare (example_ext (Inr (JSObj [(''name'', JSStr ''Ann''), (''sub'', JSStr ''s1'')]))
              (Inr (JSObj [(''email'', JSStr ''user@acme.io'')])) None [])
      example_env example_endpoints example_context ''access'' ''refresh'' example_params =
     ([Request GET ''https://idp.example.com/userinfo'' ''access'', GetTeamFromContext],
      Inr (provision_args_of example_env ''access'' ''refresh'' example_params
             \<lparr>r_email = JSStr ''user@acme.io'', r_team = None, r_client = ''web'',
              r_domain = ''acme.io'', r_subdomain = ''acme'',
              r_providerId = ''idp.example.com''\<rparr>
             (JSStr ''Ann'') (JSStr ''s1'') JSUndefined, ''web'')) \<and>
   prepare (example_ext (Inr (JSObj [(''email'', JSNull), (''name'', JSStr ''Ann''),
                                    (''sub'', JSStr ''s1'')]))
              (Inr (JSObj [(''email'', JSStr ''user@acme.io'')])) None [])
      example_env example_endpoints example_context ''access'' ''refresh'' example_params =
     ([Request GET ''https://idp.example.com/userinfo'' ''access'', GetTeamFromContext],
      Inr (provision_args_of example_env ''access'' ''refresh'' example_params
             \<lparr>r_email = JSStr ''user@acme.io'', r_team = None, r_client = ''web'',
              r_domain = ''acme.io'', r_subdomain = ''acme'',
              r_providerId = ''idp.example.com''\<rparr>
             (JSStr ''Ann'') (JSStr ''s1'') JSUndefined, ''web'')) \<and>
   u_email (arg_user (provision_args_of example_env ''access'' ''refresh'' example_params
             \<lparr>r_email = JSStr ''user@acme.io'', r_team = None, r_client = ''web'',
              r_domain = ''acme.io'', r_subdomain = ''acme'',
              r_providerId = ''idp.example.com''\<rparr>
             (JSStr ''Ann'') (JSStr ''s1'') JSUndefined)) = JSStr ''user@acme.io'' \<and>
   example_verify (JSObj [(''name'', JSStr ''Ann''), (''sub'', JSStr ''s1'')]) (JSObj []) None [] =
     ([Request GET ''https://idp.example.com/userinfo'' ''access''],
      Done (Some (AuthenticationError email_missing)) None None)"
  using email_selection [where
      ext = "example_ext (Inr (JSObj [(''name'', JSStr ''Ann''), (''sub'', JSStr ''s1'')]))
              (Inr (JSObj [(''email'', JSStr ''user@acme.io'')])) None []" and
      endpoints = example_endpoints and accessToken = "''access''" and
      profile = "JSObj [(''name'', JSStr ''Ann''), (''sub'', JSStr ''s1'')]" and
      pe = JSUndefined and ps = example_params and te = "JSStr ''user@acme.io''" and
      e = example_env and ctx = example_context and refreshToken = "''refresh''" and
      t = "[Request GET ''https://idp.example.com/userinfo'' ''access'', GetTeamFromContext]" and
      args = "provision_args_of example_env ''access'' ''refresh'' example_params
             \<lparr>r_email = JSStr ''user@acme.io'', r_team = None, r_client = ''web'',
              r_domain = ''acme.io'', r_subdomain = ''acme'',
              r_providerId = ''idp.example.com''\<rparr>
             (JSStr ''Ann'') (JSStr ''s1'') JSUndefined" and client = "''web''" and
      tlk = "[GetTeamFromContext]" and
      r = "\<lparr>r_email = JSStr ''user@acme.io'', r_team = None, r_client = ''web'',
              r_domain = ''acme.io'', r_subdomain = ''acme'',
              r_providerId = ''idp.example.com''\<rparr>" and
      name = "JSStr ''Ann''" and profileId = "JSStr ''s1''" and tav = "[]" and
      avatarUrl = JSUndefined]
    email_selection [where
      ext = "example_ext (Inr (JSObj [(''email'', JSNull), (''name'', JSStr ''Ann''),
                                    (''sub'', JSStr ''s1'')]))
              (Inr (JSObj [(''email'', JSStr ''user@acme.io'')])) None []" and
      endpoints = example_endpoints and accessToken = "''access''" and
      profile = "JSObj [(''email'', JSNull), (''name'', JSStr ''Ann''), (''sub'', JSStr ''s1'')]" and
      pe = JSNull and ps = example_params and te = "JSStr ''user@acme.io''" and
      e = example_env and ctx = example_context and refreshToken = "''refresh''" and
      t = "[Request GET ''https://idp.example.com/userinfo'' ''access'', GetTeamFromContext]" and
      args = "provision_args_of example_env ''access'' ''refresh'' example_params
             \<lparr>r_email = JSStr ''user@acme.io'', r_team = None, r_client = ''web'',
              r_domain = ''acme.io'', r_subdomain = ''acme'',
              r_providerId = ''idp.example.com''\<rparr>
             (JSStr ''Ann'') (JSStr ''s1'') JSUndefined" and client = "''web''" and
      tlk = "[GetTeamFromContext]" and
      r = "\<lparr>r_email = JSStr ''user@acme.io'', r_team = None, r_client = ''web'',
              r_domain = ''acme.io'', r_subdomain = ''acme'',
              r_providerId = ''idp.example.com''\<rparr>" and
      name = "JSStr ''Ann''" and profileId = "JSStr ''s1''" and tav = "[]" and
      avatarUrl = JSUndefined]
    email_selection [where
      ext = "example_ext (Inr (JSObj [(''name'', JSStr ''Ann''), (''sub'', JSStr ''s1'')]))
              (Inr (JSObj [])) None []" and
      endpoints = example_endpoints and accessToken = "''access''" and
      profile = "JSObj [(''name'', JSStr ''Ann''), (''sub'', JSStr ''s1'')]" and
      pe = JSUndefined and ps = example_params and te = JSUndefined and
      e = example_env and ctx = example_context and refreshToken = "''refresh''"]
  by (simp add: callback_defs)


section \<open>The stored provider\<close>

lemma findOne_Some:
  assumes "findOne rows w = Some p"
  shows "p \<in> set rows \<and> row_name p = where_name w \<and> row_teamId p = where_teamId w \<and>
         (case where_providerId w of None \<Rightarrow> True | Some d \<Rightarrow> row_providerId p = d)"
  using assms unfolding findOne_def find_Some_iff by (auto simp: in_set_conv_nth)

lemma findOne_None:
  "findOne rows w = None \<longleftrightarrow>
     \<not> list_ex (\<lambda>r. row_name r = where_name w \<and> row_teamId r = where_teamId w \<and>
           (case where_providerId w of None \<Rightarrow> True | Some d \<Rightarrow> row_providerId r = d)) rows"
  unfolding findOne_def find_None_iff by (auto simp: list_ex_iff)

text \<open>
  C6. The lookup has two steps. Without a team nothing is queried and no provider is
  returned. With a team, when the table has an \<open>oidc\<close> row of that team whose
  \<open>providerId\<close> is the email domain, one query is made and it returns such a row; the
  team-wide query is not made. When there is no such row, the team-wide query is made
  too and the result is an \<open>oidc\<close> row of that team if the table has one, and null if
  it has none.
\<close>

theorem provider_lookup:
  "find_authenticationProvider ext None domain = ([], None) \<and>
   (list_ex (\<lambda>r. row_name r = ''oidc'' \<and> row_teamId r = team_id t \<and> row_providerId r = domain)
        (AuthenticationProvider_table ext) \<longrightarrow>
      (\<exists>p. find_authenticationProvider ext (Some t) domain =
              ([FindOne \<lparr>where_name = ''oidc'', where_teamId = team_id t,
                         where_providerId = Some domain\<rparr>], Some p) \<and>
           p \<in> set (AuthenticationProvider_table ext) \<and>
           row_name p = ''oidc'' \<and> row_teamId p = team_id t \<and> row_providerId p = domain)) \<and>
   (\<not> list_ex (\<lambda>r. row_name r = ''oidc'' \<and> row_teamId r = team_id t \<and> row_providerId r = domain)
        (AuthenticationProvider_table ext) \<and>
    list_ex (\<lambda>r. row_name r = ''oidc'' \<and> row_teamId r = team_id t)
        (AuthenticationProvider_table ext) \<longrightarrow>
      (\<exists>p. find_authenticationProvider ext (Some t) domain =
              ([FindOne \<lparr>where_name = ''oidc'', where_teamId = team_id t,
                         where_providerId = Some domain\<rparr>,
                FindOne \<lparr>where_name = ''oidc'', where_teamId = team_id t,
                         where_providerId = None\<rparr>], Some p) \<and>
           p \<in> set (AuthenticationProvider_table ext) \<and>
           row_name p = ''oidc'' \<and> row_teamId p = team_id t)) \<and>
   (\<not> list_ex (\<lambda>r. row_name r = ''oidc'' \<and> row_teamId r = team_id t)
        (AuthenticationProvider_table ext) \<longrightarrow>
      find_authenticationProvider ext (Some t) domain =
              ([FindOne \<lparr>where_name = ''oidc'', where_teamId = team_id t,
                         where_providerId = Some domain\<rparr>,
                FindOne \<lparr>where_name = ''oidc'', where_teamId = team_id t,
                         where_providerId = None\<rparr>], None))"
proof (intro conjI impI)
  let ?rows = "AuthenticationProvider_table ext"
  let ?w1 = "\<lparr>where_name = ''oidc'', where_teamId = team_id t, where_providerId = Some domain\<rparr>"
  let ?w2 = "\<lparr>where_name = ''oidc'', where_teamId = team_id t, where_providerId = None\<rparr>"
  show "find_authenticationProvider ext None domain = ([], None)"
    by (simp add: find_authenticationProvider_def)
  {
    assume "list_ex (\<lambda>r. row_name r = ''oidc'' \<and> row_teamId r = team_id t \<and>
              row_providerId r = domain) ?rows"
    then have "findOne ?rows ?w1 \<noteq> None" by (simp add: findOne_None)
    then obtain p where p: "findOne ?rows ?w1 = Some p" by auto
    from findOne_Some [OF p] p
    show "\<exists>p. find_authenticationProvider ext (Some t) domain = ([FindOne ?w1], Some p) \<and>
           p \<in> set ?rows \<and> row_name p = ''oidc'' \<and> row_teamId p = team_id t \<and>
           row_providerId p = domain"
      by (simp add: find_authenticationProvider_def)
  }
  {
    assume "\<not> list_ex (\<lambda>r. row_name r = ''oidc'' \<and> row_teamId r = team_id t \<and>
                row_providerId r = domain) ?rows \<and>
            list_ex (\<lambda>r. row_name r = ''oidc'' \<and> row_teamId r = team_id t) ?rows"
    then have n1: "findOne ?rows ?w1 = None" and "findOne ?rows ?w2 \<noteq> None"
      by (simp_all add: findOne_None)
    then obtain p where p: "findOne ?rows ?w2 = Some p" by auto
    from findOne_Some [OF p] p n1
    show "\<exists>p. find_authenticationProvider ext (Some t) domain =
                 ([FindOne ?w1, FindOne ?w2], Some p) \<and>
           p \<in> set ?rows \<and> row_name p = ''oidc'' \<and> row_teamId p = team_id t"
      by (simp add: find_authenticationProvider_def)
  }
  {
    assume a: "\<not> list_ex (\<lambda>r. row_name r = ''oidc'' \<and> row_teamId r = team_id t) ?rows"
    then have n2: "findOne ?rows ?w2 = None" by (simp add: findOne_None)
    from a have "\<not> list_ex (\<lambda>r. row_name r = ''oidc'' \<and> row_teamId r = team_id t \<and>
                row_providerId r = domain) ?rows"
      by (auto simp: list_ex_iff)
    then have n1: "findOne ?rows ?w1 = None" by (simp add: findOne_None)
    from n1 n2 show "find_authenticationProvider ext (Some t) domain =
                 ([FindOne ?w1, FindOne ?w2], None)"
      by (simp add: find_authenticationProvider_def)
  }
qed


theorem provider_lookup_witness:
  "find_authenticationProvider
     (example_ext (Inr (JSObj [])) (Inr (JSObj [])) (Some \<lparr>team_id = ''t1''\<rparr>)
        [\<lparr>row_name = ''oidc'', row_teamId = ''t1'', row_providerId = ''corp.example''\<rparr>,
         \<lparr>row_name = ''oidc'', row_teamId = ''t1'', row_providerId = ''acme.io''\<rparr>,
         \<lparr>row_name = ''oidc'', row_teamId = ''t2'', row_providerId = ''acme.io''\<rparr>])
     (Some \<lparr>team_id = ''t1''\<rparr>) ''acme.io'' =
     ([FindOne \<lparr>where_name = ''oidc'', where_teamId = ''t1'', where_providerId = Some ''acme.io''\<rparr>],
      Some \<lparr>row_name = ''oidc'', row_teamId = ''t1'', row_providerId = ''acme.io''\<rparr>) \<and>
   find_authenticationProvider
     (example_ext (Inr (JSObj [])) (Inr (JSObj [])) (Some \<lparr>team_id = ''t1''\<rparr>)
        [\<lparr>row_name = ''oidc'', row_teamId = ''t2'', row_providerId = ''acme.io''\<rparr>,
         \<lparr>row_name = ''oidc'', row_teamId = ''t1'', row_providerId = ''corp.example''\<rparr>])
     (Some \<lparr>team_id = ''t1''\<rparr>) ''acme.io'' =
     ([FindOne \<lparr>where_name = ''oidc'', where_teamId = ''t1'', where_providerId = Some ''acme.io''\<rparr>,
       FindOne \<lparr>where_name = ''oidc'', where_teamId = ''t1'', where_providerId = None\<rparr>],
      Some \<lparr>row_name = ''oidc'', row_teamId = ''t1'', row_providerId = ''corp.example''\<rparr>) \<and>
   find_authenticationProvider
     (example_ext (Inr (JSObj [])) (Inr (JSObj [])) (Some \<lparr>team_id = ''t1''\<rparr>)
        [\<lparr>row_name = ''oidc'', row_teamId = ''t2'', row_providerId = ''acme.io''\<rparr>])
     (Some \<lparr>team_id = ''t1''\<rparr>) ''acme.io'' =
     ([FindOne \<lparr>where_name = ''oidc'', where_teamId = ''t1'', where_providerId = Some ''acme.io''\<rparr>,
       FindOne \<lparr>where_name = ''oidc'', where_teamId = ''t1'', where_providerId = None\<rparr>],
      None)"
  using provider_lookup [of
      "example_ext (Inr (JSObj [])) (Inr (JSObj [])) (Some \<lparr>team_id = ''t1''\<rparr>)
        [\<lparr>row_name = ''oidc'', row_teamId = ''t1'', row_providerId = ''corp.example''\<rparr>,
         \<lparr>row_name = ''oidc'', row_teamId = ''t1'', row_providerId = ''acme.io''\<rparr>,
         \<lparr>row_name = ''oidc'', row_teamId = ''t2'', row_providerId = ''acme.io''\<rparr>]"
      "''acme.io''" "\<lparr>team_id = ''t1''\<rparr>"]
    provider_lookup [of
      "example_ext (Inr (JSObj [])) (Inr (JSObj [])) (Some \<lparr>team_id = ''t1''\<rparr>)
        [\<lparr>row_name = ''oidc'', row_teamId = ''t2'', row_providerId = ''acme.io''\<rparr>,
         \<lparr>row_name = ''oidc'', row_teamId = ''t1'', row_providerId = ''corp.example''\<rparr>]"
      "''acme.io''" "\<lparr>team_id = ''t1''\<rparr>"]
    provider_lookup [of
      "example_ext (Inr (JSObj [])) (Inr (JSObj [])) (Some \<lparr>team_id = ''t1''\<rparr>)
        [\<lparr>row_name = ''oidc'', row_teamId = ''t2'', row_providerId = ''acme.io''\<rparr>]"
      "''acme.io''" "\<lparr>team_id = ''t1''\<rparr>"]
  by (simp add: example_ext_def find_authenticationProvider_def findOne_def)

lemma prepare_success:
  assumes "prepare ext e endpoints ctx accessToken refreshToken ps = (t, Inr x)"
  shows "\<exists>profile t'. snd (fetch_profile ext endpoints accessToken) = Inr profile \<and>
           identify ext e endpoints ctx accessToken refreshToken ps profile
             (snd (decode_token ext (id_token ps))) = (t', Inr x)"
proof (cases "snd (fetch_profile ext endpoints accessToken)")
  case (Inl err)
  then have "fetch_profile ext endpoints accessToken =
               (fst (fetch_profile ext endpoints accessToken), Inl err)"
    by (cases "fetch_profile ext endpoints accessToken") simp
  then have "snd (prepare ext e endpoints ctx accessToken refreshToken ps) = Inl err"
    by (simp add: prepare_def andThen_failure)
  with assms show ?thesis by simp
next
  case (Inr profile)
  from prepare_eq [OF Inr, of e ctx refreshToken ps] assms
  have "snd (identify ext e endpoints ctx accessToken refreshToken ps profile
               (snd (decode_token ext (id_token ps)))) = Inr x"
    by simp
  then have "identify ext e endpoints ctx accessToken refreshToken ps profile
               (snd (decode_token ext (id_token ps))) =
             (fst (identify ext e endpoints ctx accessToken refreshToken ps profile
               (snd (decode_token ext (id_token ps)))), Inr x)"
    by (cases "identify ext e endpoints ctx accessToken refreshToken ps profile
               (snd (decode_token ext (id_token ps)))") simp
  with Inr show ?thesis by blast
qed

section \<open>The provider id\<close>

text \<open>
  C7. The \<open>providerId\<close> of the authentication provider handed to the provisioner is
  the stored \<open>providerId\<close> of the row that the two-step lookup found, and the hostname
  of the authorization URL when it found none. \<open>new URL(u).hostname\<close> is the
  collaborator \<open>URL_hostname\<close>; on the example environment the URL
  \<open>https://idp.example.com/authorize\<close> and an empty table give \<open>idp.example.com\<close>.
\<close>

theorem providerId_source:
  assumes "prepare ext e endpoints ctx accessToken refreshToken ps = (t, Inr (args, client))"
    and "getTeamFromContext ext ctx = Inr tm"
    and "parseEmail ext (u_email (arg_user args)) = Inr domain"
    and "URL_hostname ext (authorizationURL endpoints) = Inr hostname"
  shows "p_providerId (arg_authenticationProvider args) =
           (case snd (find_authenticationProvider ext tm domain) of
              Some p \<Rightarrow> row_providerId p
            | None \<Rightarrow> hostname)"
proof -
  from prepare_success [OF assms(1)] obtain profile t' where
    "identify ext e endpoints ctx accessToken refreshToken ps profile
       (snd (decode_token ext (id_token ps))) = (t', Inr (args, client))"
    by blast
  from identify_success [OF this] obtain r name profileId avatarUrl t1 where
    res: "resolve_provider ext endpoints ctx profile (snd (decode_token ext (id_token ps))) =
            (t1, Inr r)" and
    args: "args = provision_args_of e accessToken refreshToken ps r name profileId avatarUrl"
    by blast
  from resolve_success [OF res] obtain tm' hostname' where
    tm': "getTeamFromContext ext ctx = Inr tm'" and
    dm: "parseEmail ext (r_email r) = Inr (r_domain r)" and
    hn: "URL_hostname ext (authorizationURL endpoints) = Inr hostname'" and
    r: "r = \<lparr>r_email = r_email r, r_team = tm', r_client = getClientFromContext ext ctx,
                 r_domain = r_domain r, r_subdomain = slugifyDomain ext (r_domain r),
                 r_providerId = (case snd (find_authenticationProvider ext tm' (r_domain r)) of
                     Some p \<Rightarrow> row_providerId p | None \<Rightarrow> hostname')\<rparr>"
    by blast
  from args have em: "u_email (arg_user args) = r_email r"
    and pid: "p_providerId (arg_authenticationProvider args) = r_providerId r"
    by (simp_all add: provision_args_of_def)
  from tm' assms(2) have 1: "tm' = tm" by simp
  from dm em assms(3) have 2: "r_domain r = domain" by simp
  from hn assms(4) have 3: "hostname' = hostname" by simp
  have "r_providerId r = (case snd (find_authenticationProvider ext tm' (r_domain r)) of
                     Some p \<Rightarrow> row_providerId p | None \<Rightarrow> hostname')"
    by (subst r) simp
  with pid 1 2 3 show ?thesis by (simp split: option.splits)
qed


theorem providerId_source_witness:
  "p_providerId (arg_authenticationProvider
     (provision_args_of example_env ''access'' ''refresh'' example_params
        \<lparr>r_email = JSStr ''user@acme.io'', r_team = None, r_client = ''web'',
          r_domain = ''acme.io'', r_subdomain = ''acme'', r_providerId = ''idp.example.com''\<rparr>
        (JSStr ''Ann'') (JSStr ''s1'') JSUndefined)) = ''idp.example.com'' \<and>
   prepare (example_ext (Inr (JSObj [(''email'', JSStr ''user@acme.io''),
                (''name'', JSStr ''Ann''), (''sub'', JSStr ''s1'')])) (Inr (JSObj [])) None [])
      example_env example_endpoints example_context ''access'' ''refresh'' example_params =
     ([Request GET ''https://idp.example.com/userinfo'' ''access'', GetTeamFromContext],
      Inr (provision_args_of example_env ''access'' ''refresh'' example_params
        \<lparr>r_email = JSStr ''user@acme.io'', r_team = None, r_client = ''web'',
          r_domain = ''acme.io'', r_subdomain = ''acme'', r_providerId = ''idp.example.com''\<rparr>
        (JSStr ''Ann'') (JSStr ''s1'') JSUndefined, ''web'')) \<and>
   authorizationURL example_endpoints = ''https://idp.example.com/authorize'' \<and>
   p_providerId (arg_authenticationProvider
     (provision_args_of example_env ''access'' ''refresh'' example_params
        \<lparr>r_email = JSStr ''user@acme.io'', r_team = Some \<lparr>team_id = ''t1''\<rparr>,
          r_client = ''web'', r_domain = ''acme.io'', r_subdomain = ''acme'',
          r_providerId = ''corp.example''\<rparr>
        (JSStr ''Ann'') (JSStr ''s1'') JSUndefined)) = ''corp.example'' \<and>
   snd (prepare (example_ext (Inr (JSObj [(''email'', JSStr ''user@acme.io''),
                (''name'', JSStr ''Ann''), (''sub'', JSStr ''s1'')])) (Inr (JSObj []))
             (Some \<lparr>team_id = ''t1''\<rparr>)
             [\<lparr>row_name = ''oidc'', row_teamId = ''t1'', row_providerId = ''corp.example''\<rparr>])
      example_env example_endpoints example_context ''access'' ''refresh'' example_params) =
      Inr (provision_args_of example_env ''access'' ''refresh'' example_params
        \<lparr>r_email = JSStr ''user@acme.io'', r_team = Some \<lparr>team_id = ''t1''\<rparr>,
          r_client = ''web'', r_domain = ''acme.io'', r_subdomain = ''acme'',
          r_providerId = ''corp.example''\<rparr>
        (JSStr ''Ann'') (JSStr ''s1'') JSUndefined, ''web'')"
  using providerId_source [of
      "example_ext (Inr (JSObj [(''email'', JSStr ''user@acme.io''),
                (''name'', JSStr ''Ann''), (''sub'', JSStr ''s1'')])) (Inr (JSObj []))
             (Some \<lparr>team_id = ''t1''\<rparr>)
             [\<lparr>row_name = ''oidc'', row_teamId = ''t1'', row_providerId = ''corp.example''\<rparr>]"
      example_env example_endpoints example_context "''access''" "''refresh''" example_params
      "[Request GET ''https://idp.example.com/userinfo'' ''access'', GetTeamFromContext,
        FindOne \<lparr>where_name = ''oidc'', where_teamId = ''t1'',
                  where_providerId = Some ''acme.io''\<rparr>,
        FindOne \<lparr>where_name = ''oidc'', where_teamId = ''t1'', where_providerId = None\<rparr>]"
      "provision_args_of example_env ''access'' ''refresh'' example_params
        \<lparr>r_email = JSStr ''user@acme.io'', r_team = Some \<lparr>team_id = ''t1''\<rparr>,
          r_client = ''web'', r_domain = ''acme.io'', r_subdomain = ''acme'',
          r_providerId = ''corp.example''\<rparr>
        (JSStr ''Ann'') (JSStr ''s1'') JSUndefined"
      "''web''" "Some \<lparr>team_id = ''t1''\<rparr>" "''acme.io''" "''idp.example.com''"]
    providerId_source [of
      "example_ext (Inr (JSObj [(''email'', JSStr ''user@acme.io''),
                (''name'', JSStr ''Ann''), (''sub'', JSStr ''s1'')])) (Inr (JSObj [])) None []"
      example_env example_endpoints example_context "''access''" "''refresh''" example_params
      "[Request GET ''https://idp.example.com/userinfo'' ''access'', GetTeamFromContext]"
      "provision_args_of example_env ''access'' ''refresh'' example_params
        \<lparr>r_email = JSStr ''user@acme.io'', r_team = None, r_client = ''web'',
          r_domain = ''acme.io'', r_subdomain = ''acme'', r_providerId = ''idp.example.com''\<rparr>
        (JSStr ''Ann'') (JSStr ''s1'') JSUndefined"
      "''web''" None "''acme.io''" "''idp.example.com''"]
  by (simp add: callback_defs)


section \<open>The avatar\<close>

lemma reconcile_success:
  assumes "reconcile ext e endpoints ctx profile token = (t, Inr (r, name, profileId))"
  shows "resolve_provider ext endpoints ctx profile token = (t, Inr r) \<and>
         name_and_profileId ext e endpoints profile token = ([], Inr (name, profileId))"
proof -
  from assms obtain ta tb where
    res: "resolve_provider ext endpoints ctx profile token = (ta, Inr r)" and
    nm: "name_and_profileId ext e endpoints profile token = (tb, Inr (name, profileId))" and
    t: "t = ta @ tb"
    unfolding reconcile_def andThen_Inr_iff
    by (auto simp: ret_def split: prod.splits)
  from nm names_events [of ext e endpoints profile token] have "tb = []" by simp
  with res nm t show ?thesis by simp
qed

text \<open>
  C4, as written, fails on the code: it speaks of every userinfo response, but the check
  of line 178 is called on any truthy \<open>picture\<close>, inside the \<open>try\<close>. On a picture on
  which the check throws, here a number, the picture is neither replaced by null nor
  passed on: the callback fails with the error of the check.
\<close>

theorem avatar_check_throws_counterexample:
  "example_isBase64Url (JSNum 42) = Inl TypeError \<and>
   example_verify (JSObj [(''email'', JSStr ''user@acme.io''), (''name'', JSStr ''Ann''),
                          (''sub'', JSStr ''s1''), (''picture'', JSNum 42)]) (JSObj []) None [] =
     ([Request GET ''https://idp.example.com/userinfo'' ''access'', GetTeamFromContext],
      Done (Some TypeError) None None)"
  by (simp add: callback_defs)

text \<open>
  C4, amended. Once lines 114 to 173 have passed, there are three cases. A truthy
  \<open>picture\<close> that \<open>isBase64Url\<close> detects as a Base64 data URL does not make the
  callback fail: the provisioner's argument is built with \<open>avatarUrl\<close> null, after one
  debug line. A \<open>picture\<close> that is falsy, or on which \<open>isBase64Url\<close> returns false,
  is passed on unchanged. A truthy \<open>picture\<close> on which \<open>isBase64Url\<close> throws makes
  the callback fail with that error, before the provisioner is called.
\<close>

theorem base64_avatar_filtered:
  assumes "reconcile ext e endpoints ctx profile token = (t, Inr (r, name, profileId))"
    and "property profile M_picture = Inr picture"
  shows "(truthy picture \<and> isBase64Url ext picture = Inr True \<longrightarrow>
            (\<exists>args. identify ext e endpoints ctx accessToken refreshToken ps profile token =
               (t @ [LoggerDebug ''authentication''
                       ''Filtering out Base64 data URL from avatar'' (r_email r)],
                Inr (args, r_client r)) \<and>
               u_avatarUrl (arg_user args) = JSNull)) \<and>
         (\<not> truthy picture \<or> isBase64Url ext picture = Inr False \<longrightarrow>
            (\<exists>args. identify ext e endpoints ctx accessToken refreshToken ps profile token =
               (t, Inr (args, r_client r)) \<and>
               u_avatarUrl (arg_user args) = picture)) \<and>
         (truthy picture \<and> isBase64Url ext picture = Inl err \<longrightarrow>
            identify ext e endpoints ctx accessToken refreshToken ps profile token =
              (t, Inl err))"
proof -
  from reconcile_success [OF assms(1)] have
    res: "resolve_provider ext endpoints ctx profile token = (t, Inr r)" and
    nm: "name_and_profileId ext e endpoints profile token = ([], Inr (name, profileId))"
    by simp_all
  note parts = identify_of_parts [OF res nm, of _ _ accessToken refreshToken ps]
  show ?thesis
  proof (intro conjI impI)
    assume "truthy picture \<and> isBase64Url ext picture = Inr True"
    then have "filter_avatarUrl ext (r_email r) profile =
                 ([LoggerDebug ''authentication''
                       ''Filtering out Base64 data URL from avatar'' (r_email r)], Inr JSNull)"
      using assms(2) by (simp add: filter_avatarUrl_def andThen_emit ret_def)
    from parts [OF this]
    show "\<exists>args. identify ext e endpoints ctx accessToken refreshToken ps profile token =
               (t @ [LoggerDebug ''authentication''
                       ''Filtering out Base64 data URL from avatar'' (r_email r)],
                Inr (args, r_client r)) \<and>
               u_avatarUrl (arg_user args) = JSNull"
      by (simp add: provision_args_of_def)
  next
    assume "\<not> truthy picture \<or> isBase64Url ext picture = Inr False"
    then have "filter_avatarUrl ext (r_email r) profile = ([], Inr picture)"
      using assms(2) by (auto simp: filter_avatarUrl_def ret_def)
    from parts [OF this]
    show "\<exists>args. identify ext e endpoints ctx accessToken refreshToken ps profile token =
               (t, Inr (args, r_client r)) \<and>
               u_avatarUrl (arg_user args) = picture"
      by (simp add: provision_args_of_def)
  next
    assume "truthy picture \<and> isBase64Url ext picture = Inl err"
    then have "filter_avatarUrl ext (r_email r) profile = ([], Inl err)"
      using assms(2) by (simp add: filter_avatarUrl_def throw_def)
    from parts [OF this]
    show "identify ext e endpoints ctx accessToken refreshToken ps profile token = (t, Inl err)"
      by simp
  qed
qed


theorem base64_avatar_filtered_witness:
  "identify (example_ext (Inr (JSObj [])) (Inr (JSObj [])) None []) example_env
      example_endpoints example_context ''access'' ''refresh'' example_params
      (JSObj [(''email'', JSStr ''user@acme.io''), (''name'', JSStr ''Ann''),
              (''sub'', JSStr ''s1''), (''picture'', JSStr ''data:image/png;base64,iVBORw0KGgo='')])
      (JSObj []) =
     ([GetTeamFromContext,
       LoggerDebug ''authentication'' ''Filtering out Base64 data URL from avatar''
         (JSStr ''user@acme.io'')],
      Inr (provision_args_of example_env ''access'' ''refresh'' example_params
             \<lparr>r_email = JSStr ''user@acme.io'', r_team = None, r_client = ''web'',
               r_domain = ''acme.io'', r_subdomain = ''acme'',
               r_providerId = ''idp.example.com''\<rparr>
             (JSStr ''Ann'') (JSStr ''s1'') JSNull, ''web'')) \<and>
   identify (example_ext (Inr (JSObj [])) (Inr (JSObj [])) None []) example_env
      example_endpoints example_context ''access'' ''refresh'' example_params
      (JSObj [(''email'', JSStr ''user@acme.io''), (''name'', JSStr ''Ann''),
              (''sub'', JSStr ''s1''), (''picture'', JSStr ''https://cdn.acme.io/ann.png'')])
      (JSObj []) =
     ([GetTeamFromContext],
      Inr (provision_args_of example_env ''access'' ''refresh'' example_params
             \<lparr>r_email = JSStr ''user@acme.io'', r_team = None, r_client = ''web'',
               r_domain = ''acme.io'', r_subdomain = ''acme'',
               r_providerId = ''idp.example.com''\<rparr>
             (JSStr ''Ann'') (JSStr ''s1'') (JSStr ''https://cdn.acme.io/ann.png''), ''web'')) \<and>
   identify (example_ext (Inr (JSObj [])) (Inr (JSObj [])) None []) example_env
      example_endpoints example_context ''access'' ''refresh'' example_params
      (JSObj [(''email'', JSStr ''user@acme.io''), (''name'', JSStr ''Ann''),
              (''sub'', JSStr ''s1''), (''picture'', JSNum 42)])
      (JSObj []) =
     ([GetTeamFromContext], Inl TypeError)"
  using base64_avatar_filtered [of
      "example_ext (Inr (JSObj [])) (Inr (JSObj [])) None []" example_env
      example_endpoints example_context
      "JSObj [(''email'', JSStr ''user@acme.io''), (''name'', JSStr ''Ann''),
              (''sub'', JSStr ''s1''), (''picture'', JSStr ''data:image/png;base64,iVBORw0KGgo='')]"
      "JSObj []" "[GetTeamFromContext]"
      "\<lparr>r_email = JSStr ''user@acme.io'', r_team = None, r_client = ''web'',
               r_domain = ''acme.io'', r_subdomain = ''acme'',
               r_providerId = ''idp.example.com''\<rparr>"
      "JSStr ''Ann''" "JSStr ''s1''" "JSStr ''data:image/png;base64,iVBORw0KGgo=''"
      "''access''" "''refresh''" example_params]
    base64_avatar_filtered [of
      "example_ext (Inr (JSObj [])) (Inr (JSObj [])) None []" example_env
      example_endpoints example_context
      "JSObj [(''email'', JSStr ''user@acme.io''), (''name'', JSStr ''Ann''),
              (''sub'', JSStr ''s1''), (''picture'', JSStr ''https://cdn.acme.io/ann.png'')]"
      "JSObj []" "[GetTeamFromContext]"
      "\<lparr>r_email = JSStr ''user@acme.io'', r_team = None, r_client = ''web'',
               r_domain = ''acme.io'', r_subdomain = ''acme'',
               r_providerId = ''idp.example.com''\<rparr>"
      "JSStr ''Ann''" "JSStr ''s1''" "JSStr ''https://cdn.acme.io/ann.png''"
      "''access''" "''refresh''" example_params]
    base64_avatar_filtered [of
      "example_ext (Inr (JSObj [])) (Inr (JSObj [])) None []" example_env
      example_endpoints example_context
      "JSObj [(''email'', JSStr ''user@acme.io''), (''name'', JSStr ''Ann''),
              (''sub'', JSStr ''s1''), (''picture'', JSNum 42)]"
      "JSObj []" "[GetTeamFromContext]"
      "\<lparr>r_email = JSStr ''user@acme.io'', r_team = None, r_client = ''web'',
               r_domain = ''acme.io'', r_subdomain = ''acme'',
               r_providerId = ''idp.example.com''\<rparr>"
      "JSStr ''Ann''" "JSStr ''s1''" "JSNum 42"
      "''access''" "''refresh''" example_params TypeError]
  by (simp add: callback_defs)

section \<open>The required fields\<close>

lemma resolve_ok:
  assumes "email_of profile token = ([], Inr email)" and "truthy email"
    and "getTeamFromContext ext ctx = Inr tm"
    and "parseEmail ext email = Inr domain" and "domain \<noteq> []"
    and "URL_hostname ext (authorizationURL endpoints) = Inr hostname"
  shows "resolve_provider ext endpoints ctx profile token =
           (GetTeamFromContext # fst (find_authenticationProvider ext tm domain),
            Inr \<lparr>r_email = email, r_team = tm, r_client = getClientFromContext ext ctx,
                 r_domain = domain, r_subdomain = slugifyDomain ext domain,
                 r_providerId = (case snd (find_authenticationProvider ext tm domain) of
                     Some p \<Rightarrow> row_providerId p | None \<Rightarrow> hostname)\<rparr>)"
  using assms
  by (simp add: resolve_provider_def lookup_provider_def andThen_def emit_def tell_def
        lift_def ret_def throw_def Let_def split: prod.splits)

lemma names_eq:
  assumes "property profile M_name = Inr n" and "property profile M_username = Inr un"
    and "property profile M_sub = Inr sub" and "property profile M_id = Inr pid"
  shows "name_and_profileId ext e endpoints profile token =
           (if \<not> truthy (if truthy n then n
                          else if truthy (username_of ext e profile token)
                               then username_of ext e profile token else un)
            then ([], Inl (AuthenticationError
                             (name_missing (OIDC_USERNAME_CLAIM e) (userInfoURL endpoints))))
            else if \<not> truthy (if truthy sub then sub else pid)
            then ([], Inl (AuthenticationError (id_missing (userInfoURL endpoints))))
            else ([], Inr (if truthy n then n
                           else if truthy (username_of ext e profile token)
                                then username_of ext e profile token else un,
                           if truthy sub then sub else pid)))"
  using assms
  by (simp add: name_and_profileId_def Let_def andThen_def lift_def throw_def ret_def)

lemma avatar_ok:
  assumes "property profile M_picture = Inr picture"
    and "\<not> truthy picture \<or> (\<exists>b. isBase64Url ext picture = Inr b)"
  shows "\<exists>t avatarUrl. filter_avatarUrl ext email profile = (t, Inr avatarUrl)"
  using assms by (auto simp: filter_avatarUrl_def andThen_def emit_def lift_def ret_def)

text \<open>
  C1, as written, fails on the code: a pair in which the sources together supply an
  email, a \<open>sub\<close> and a name, the \<open>sub\<close> by the decoded token alone, is rejected with
  the user-id-missing error. Line 162 reads \<open>sub\<close> and \<open>id\<close> from the userinfo
  response only.
\<close>

theorem subject_in_token_only_counterexample:
  "spec_supplies (JSObj [(''email'', JSStr ''user@acme.io''), (''name'', JSStr ''Ann'')])
                 (JSObj [(''sub'', JSStr ''s1'')]) ''email'' \<and>
   spec_supplies (JSObj [(''email'', JSStr ''user@acme.io''), (''name'', JSStr ''Ann'')])
                 (JSObj [(''sub'', JSStr ''s1'')]) ''sub'' \<and>
   spec_supplies (JSObj [(''email'', JSStr ''user@acme.io''), (''name'', JSStr ''Ann'')])
                 (JSObj [(''sub'', JSStr ''s1'')]) ''name'' \<and>
   example_verify (JSObj [(''email'', JSStr ''user@acme.io''), (''name'', JSStr ''Ann'')])
                  (JSObj [(''sub'', JSStr ''s1'')]) None [] =
     ([Request GET ''https://idp.example.com/userinfo'' ''access'', GetTeamFromContext],
      Done (Some (AuthenticationError (id_missing ''https://idp.example.com/userinfo'')))
        None None)"
  by (simp add: spec_supplies_def callback_defs)

text \<open>
  C1, amended. Let the email selected by line 114 be truthy, let the steps of the
  resolver that run between the checks succeed (the team is read, the email has a
  non-empty domain, the authorization URL parses), let one of \<open>profile.name\<close>, the
  username claim (of the userinfo response, else of the token) and \<open>profile.username\<close>
  be truthy, and let the check of the picture not throw. Then, when \<open>profile.sub\<close> or
  \<open>profile.id\<close> is truthy, the provisioner's argument is built and its email, name and
  subject id are truthy, taken in the order of the source. When neither \<open>profile.sub\<close>
  nor \<open>profile.id\<close> is truthy, the callback fails with the user-id-missing error,
  whatever \<open>sub\<close> the token carries.
\<close>

theorem subject_from_profile:
  assumes "email_of profile token = ([], Inr email)" and "truthy email"
    and "getTeamFromContext ext ctx = Inr tm"
    and "parseEmail ext email = Inr domain" and "domain \<noteq> []"
    and "URL_hostname ext (authorizationURL endpoints) = Inr hostname"
    and "property profile M_name = Inr n" and "property profile M_username = Inr un"
    and "truthy n \<or> truthy (username_of ext e profile token) \<or> truthy un"
    and "property profile M_sub = Inr sub" and "property profile M_id = Inr pid"
    and "property profile M_picture = Inr picture"
    and "\<not> truthy picture \<or> (\<exists>b. isBase64Url ext picture = Inr b)"
  shows "(truthy sub \<or> truthy pid \<longrightarrow>
            (\<exists>t args client.
               identify ext e endpoints ctx accessToken refreshToken ps profile token =
                 (t, Inr (args, client)) \<and>
               u_email (arg_user args) = email \<and>
               u_name (arg_user args) =
                 (if truthy n then n
                  else if truthy (username_of ext e profile token)
                       then username_of ext e profile token else un) \<and>
               a_providerId (arg_authentication args) = (if truthy sub then sub else pid) \<and>
               truthy (u_email (arg_user args)) \<and> truthy (u_name (arg_user args)) \<and>
               truthy (a_providerId (arg_authentication args)))) \<and>
         (\<not> truthy sub \<and> \<not> truthy pid \<longrightarrow>
            identify ext e endpoints ctx accessToken refreshToken ps profile token =
              (GetTeamFromContext # fst (find_authenticationProvider ext tm domain),
               Inl (AuthenticationError (id_missing (userInfoURL endpoints)))))"
proof -
  let ?r = "\<lparr>r_email = email, r_team = tm, r_client = getClientFromContext ext ctx,
                 r_domain = domain, r_subdomain = slugifyDomain ext domain,
                 r_providerId = (case snd (find_authenticationProvider ext tm domain) of
                     Some p \<Rightarrow> row_providerId p | None \<Rightarrow> hostname)\<rparr>"
  let ?t1 = "GetTeamFromContext # fst (find_authenticationProvider ext tm domain)"
  let ?name = "if truthy n then n
               else if truthy (username_of ext e profile token)
                    then username_of ext e profile token else un"
  let ?id = "if truthy sub then sub else pid"
  have res: "resolve_provider ext endpoints ctx profile token = (?t1, Inr ?r)"
    using assms(1-6) by (rule resolve_ok)
  have name: "truthy ?name"
    using assms(9) by auto
  note nm = names_eq [OF assms(7,8,10,11), of ext e endpoints token]
  show ?thesis
  proof (intro conjI impI)
    assume "truthy sub \<or> truthy pid"
    then have "truthy ?id" by auto
    with name nm have "name_and_profileId ext e endpoints profile token =
                         ([], Inr (?name, ?id))"
      by simp
    with res have rec: "reconcile ext e endpoints ctx profile token =
                          (?t1, Inr (?r, ?name, ?id))"
      by (simp add: reconcile_def andThen_def ret_def)
    from avatar_ok [OF assms(12,13), of email] obtain t2 avatarUrl where
      av: "filter_avatarUrl ext email profile = (t2, Inr avatarUrl)"
      by blast
    have "identify ext e endpoints ctx accessToken refreshToken ps profile token =
            (?t1 @ t2,
             Inr (provision_args_of e accessToken refreshToken ps ?r ?name ?id avatarUrl,
                  r_client ?r))"
      unfolding identify_def
      by (subst andThen_success [OF rec]) (simp add: av andThen_def ret_def)
    with name \<open>truthy ?id\<close> assms(2)
    show "\<exists>t args client.
               identify ext e endpoints ctx accessToken refreshToken ps profile token =
                 (t, Inr (args, client)) \<and>
               u_email (arg_user args) = email \<and>
               u_name (arg_user args) = ?name \<and>
               a_providerId (arg_authentication args) = ?id \<and>
               truthy (u_email (arg_user args)) \<and> truthy (u_name (arg_user args)) \<and>
               truthy (a_providerId (arg_authentication args))"
      by (simp add: provision_args_of_def)
  next
    assume "\<not> truthy sub \<and> \<not> truthy pid"
    then have "\<not> truthy ?id" by simp
    with name nm have "name_and_profileId ext e endpoints profile token =
                 ([], Inl (AuthenticationError (id_missing (userInfoURL endpoints))))"
      by simp
    with res have "reconcile ext e endpoints ctx profile token =
                 (?t1, Inl (AuthenticationError (id_missing (userInfoURL endpoints))))"
      by (simp add: reconcile_def andThen_def)
    then show "identify ext e endpoints ctx accessToken refreshToken ps profile token =
              (?t1, Inl (AuthenticationError (id_missing (userInfoURL endpoints))))"
      by (simp add: identify_def andThen_failure)
  qed
qed


theorem subject_from_profile_witness:
  "identify (example_ext (Inr (JSObj [])) (Inr (JSObj [])) None []) example_env
      example_endpoints example_context ''access'' ''refresh'' example_params
      (JSObj [(''email'', JSStr ''user@acme.io''), (''name'', JSStr ''Ann''),
              (''sub'', JSStr ''s1'')])
      (JSObj [(''sub'', JSStr ''s2'')]) =
     ([GetTeamFromContext],
      Inr (provision_args_of example_env ''access'' ''refresh'' example_params
             \<lparr>r_email = JSStr ''user@acme.io'', r_team = None, r_client = ''web'',
               r_domain = ''acme.io'', r_subdomain = ''acme'',
               r_providerId = ''idp.example.com''\<rparr>
             (JSStr ''Ann'') (JSStr ''s1'') JSUndefined, ''web'')) \<and>
   identify (example_ext (Inr (JSObj [])) (Inr (JSObj [])) None []) example_env
      example_endpoints example_context ''access'' ''refresh'' example_params
      (JSObj [(''email'', JSStr ''user@acme.io''), (''name'', JSStr ''Ann'')])
      (JSObj [(''sub'', JSStr ''s2'')]) =
     ([GetTeamFromContext],
      Inl (AuthenticationError (id_missing ''https://idp.example.com/userinfo'')))"
  using subject_from_profile [where
      ext = "example_ext (Inr (JSObj [])) (Inr (JSObj [])) None []" and e = example_env and
      endpoints = example_endpoints and ctx = example_context and
      accessToken = "''access''" and refreshToken = "''refresh''" and ps = example_params and
      profile = "JSObj [(''email'', JSStr ''user@acme.io''), (''name'', JSStr ''Ann''),
                        (''sub'', JSStr ''s1'')]" and
      token = "JSObj [(''sub'', JSStr ''s2'')]" and
      email = "JSStr ''user@acme.io''" and tm = None and domain = "''acme.io''" and
      hostname = "''idp.example.com''" and n = "JSStr ''Ann''" and un = JSUndefined and
      sub = "JSStr ''s1''" and pid = JSUndefined and picture = JSUndefined]
    subject_from_profile [where
      ext = "example_ext (Inr (JSObj [])) (Inr (JSObj [])) None []" and e = example_env and
      endpoints = example_endpoints and ctx = example_context and
      accessToken = "''access''" and refreshToken = "''refresh''" and ps = example_params and
      profile = "JSObj [(''email'', JSStr ''user@acme.io''), (''name'', JSStr ''Ann'')]" and
      token = "JSObj [(''sub'', JSStr ''s2'')]" and
      email = "JSStr ''user@acme.io''" and tm = None and domain = "''acme.io''" and
      hostname = "''idp.example.com''" and n = "JSStr ''Ann''" and un = JSUndefined and
      sub = JSUndefined and pid = JSUndefined and picture = JSUndefined]
  by (simp add: callback_defs)

lemma decode_token_no_lookup: "list_all (\<lambda>ev. \<not> is_lookup ev) (fst (decode_token ext s))"
  by (simp add: decode_token_def split: sum.splits)

text \<open>
  C3, as written, fails on the code in two ways. The checks of the name and of the
  subject id come after the lookup: a response without a name is rejected only after
  the team has been read and both provider queries have run. And the checks test
  truthiness, not the type: a numeric \<open>id\<close> reaches the provisioner as the subject id.
\<close>

theorem checks_after_lookup_counterexample:
  "example_verify (JSObj [(''email'', JSStr ''user@acme.io''), (''sub'', JSStr ''s1'')])
     (JSObj []) (Some \<lparr>team_id = ''t1''\<rparr>) [] =
     ([Request GET ''https://idp.example.com/userinfo'' ''access'', GetTeamFromContext,
       FindOne \<lparr>where_name = ''oidc'', where_teamId = ''t1'',
                 where_providerId = Some ''acme.io''\<rparr>,
       FindOne \<lparr>where_name = ''oidc'', where_teamId = ''t1'', where_providerId = None\<rparr>],
      Done (Some (AuthenticationError
                    (name_missing ''preferred_username'' ''https://idp.example.com/userinfo'')))
        None None) \<and>
   prepare (example_ext (Inr (JSObj [(''email'', JSStr ''user@acme.io''),
              (''name'', JSStr ''Ann''), (''id'', JSNum 42)])) (Inr (JSObj [])) None [])
      example_env example_endpoints example_context ''access'' ''refresh'' example_params =
     ([Request GET ''https://idp.example.com/userinfo'' ''access'', GetTeamFromContext],
      Inr (provision_args_of example_env ''access'' ''refresh'' example_params
             \<lparr>r_email = JSStr ''user@acme.io'', r_team = None, r_client = ''web'',
               r_domain = ''acme.io'', r_subdomain = ''acme'',
               r_providerId = ''idp.example.com''\<rparr>
             (JSStr ''Ann'') (JSNum 42) JSUndefined, ''web''))"
  by (simp add: callback_defs)

lemma fields_or_failure:
  "((\<exists>t args client.
       prepare ext e endpoints ctx accessToken refreshToken ps = (t, Inr (args, client)) \<and>
       truthy (u_email (arg_user args)) \<and> truthy (u_name (arg_user args)) \<and>
       truthy (a_providerId (arg_authentication args)) \<and>
       (\<forall>s. u_email (arg_user args) = JSStr s \<longrightarrow> s \<noteq> []) \<and>
       (\<forall>s. u_name (arg_user args) = JSStr s \<longrightarrow> s \<noteq> []) \<and>
       (\<forall>s. a_providerId (arg_authentication args) = JSStr s \<longrightarrow> s \<noteq> [])) \<or>
    (\<exists>t err.
       prepare ext e endpoints ctx accessToken refreshToken ps = (t, Inl err) \<and>
       list_all (\<lambda>ev. \<not> is_provision ev) t \<and>
       verify ext e endpoints ctx accessToken refreshToken ps =
         (t, Done (Some err) None None))) \<and>
   (snd (fetch_profile ext endpoints accessToken) = Inr profile \<and>
    email_of profile (snd (decode_token ext (id_token ps))) = ([], Inr email) \<and>
    \<not> truthy email \<longrightarrow>
      snd (prepare ext e endpoints ctx accessToken refreshToken ps) =
        Inl (AuthenticationError email_missing) \<and>
      list_all (\<lambda>ev. \<not> is_lookup ev)
        (fst (prepare ext e endpoints ctx accessToken refreshToken ps)))"
proof (intro conjI impI)
  obtain t x where p: "prepare ext e endpoints ctx accessToken refreshToken ps = (t, x)"
    by (cases "prepare ext e endpoints ctx accessToken refreshToken ps")
  show "(\<exists>t args client.
       prepare ext e endpoints ctx accessToken refreshToken ps = (t, Inr (args, client)) \<and>
       truthy (u_email (arg_user args)) \<and> truthy (u_name (arg_user args)) \<and>
       truthy (a_providerId (arg_authentication args)) \<and>
       (\<forall>s. u_email (arg_user args) = JSStr s \<longrightarrow> s \<noteq> []) \<and>
       (\<forall>s. u_name (arg_user args) = JSStr s \<longrightarrow> s \<noteq> []) \<and>
       (\<forall>s. a_providerId (arg_authentication args) = JSStr s \<longrightarrow> s \<noteq> [])) \<or>
    (\<exists>t err.
       prepare ext e endpoints ctx accessToken refreshToken ps = (t, Inl err) \<and>
       list_all (\<lambda>ev. \<not> is_provision ev) t \<and>
       verify ext e endpoints ctx accessToken refreshToken ps =
         (t, Done (Some err) None None))"
  proof (cases x)
    case (Inl err)
    with p have f: "prepare ext e endpoints ctx accessToken refreshToken ps = (t, Inl err)"
      by simp
    from f prepare_no_provision [of ext e endpoints ctx accessToken refreshToken ps]
    have "list_all (\<lambda>ev. \<not> is_provision ev) t" by simp
    with f verify_of_failure [OF f] show ?thesis by blast
  next
    case (Inr ac)
    obtain args client where ac: "ac = (args, client)" by (cases ac)
    with p Inr have s: "prepare ext e endpoints ctx accessToken refreshToken ps =
                          (t, Inr (args, client))"
      by simp
    from prepare_success [OF s] obtain profile t' where
      "identify ext e endpoints ctx accessToken refreshToken ps profile
         (snd (decode_token ext (id_token ps))) = (t', Inr (args, client))"
      by blast
    from identify_success [OF this] obtain r name profileId avatarUrl t1 where
      res: "resolve_provider ext endpoints ctx profile (snd (decode_token ext (id_token ps))) =
              (t1, Inr r)" and
      nm: "name_and_profileId ext e endpoints profile (snd (decode_token ext (id_token ps))) =
              ([], Inr (name, profileId))" and
      args: "args = provision_args_of e accessToken refreshToken ps r name profileId avatarUrl"
      by blast
    from resolve_success [OF res] have "truthy (r_email r)" by blast
    moreover from names_success [OF nm] have "truthy name" and "truthy profileId" by simp_all
    ultimately have "truthy (u_email (arg_user args)) \<and> truthy (u_name (arg_user args)) \<and>
       truthy (a_providerId (arg_authentication args))"
      using args by (simp add: provision_args_of_def)
    then have "truthy (u_email (arg_user args)) \<and> truthy (u_name (arg_user args)) \<and>
       truthy (a_providerId (arg_authentication args)) \<and>
       (\<forall>s. u_email (arg_user args) = JSStr s \<longrightarrow> s \<noteq> []) \<and>
       (\<forall>s. u_name (arg_user args) = JSStr s \<longrightarrow> s \<noteq> []) \<and>
       (\<forall>s. a_providerId (arg_authentication args) = JSStr s \<longrightarrow> s \<noteq> [])"
      by auto
    with s show ?thesis by blast
  qed
next
  assume a: "snd (fetch_profile ext endpoints accessToken) = Inr profile \<and>
    email_of profile (snd (decode_token ext (id_token ps))) = ([], Inr email) \<and>
    \<not> truthy email"
  then have "resolve_provider ext endpoints ctx profile (snd (decode_token ext (id_token ps))) =
               ([], Inl (AuthenticationError email_missing))"
    by (simp add: resolve_email_missing)
  then have "identify ext e endpoints ctx accessToken refreshToken ps profile
               (snd (decode_token ext (id_token ps))) =
               ([], Inl (AuthenticationError email_missing))"
    by (rule identify_of_resolve_failure)
  with a have eq: "prepare ext e endpoints ctx accessToken refreshToken ps =
           (fst (fetch_profile ext endpoints accessToken) @ fst (decode_token ext (id_token ps)),
            Inl (AuthenticationError email_missing))"
    by (simp add: prepare_eq)
  then show "snd (prepare ext e endpoints ctx accessToken refreshToken ps) =
        Inl (AuthenticationError email_missing)"
    by simp
  from eq decode_token_no_lookup [of ext "id_token ps"]
  show "list_all (\<lambda>ev. \<not> is_lookup ev)
        (fst (prepare ext e endpoints ctx accessToken refreshToken ps))"
    by (simp add: fetch_profile_eq)
qed


lemma late_checks:
  assumes fetch: "snd (fetch_profile ext endpoints accessToken) = Inr profile"
    and em: "email_of profile (snd (decode_token ext (id_token ps))) = ([], Inr em)"
    and tr: "truthy em"
    and tm: "getTeamFromContext ext ctx = Inr tm"
    and dm: "parseEmail ext em = Inr domain"
    and hn: "URL_hostname ext (authorizationURL endpoints) = Inr hostname"
    and n: "property profile M_name = Inr n" and un: "property profile M_username = Inr un"
    and sub: "property profile M_sub = Inr sub" and pid: "property profile M_id = Inr pid"
  shows "(domain = [] \<longrightarrow>
            prepare ext e endpoints ctx accessToken refreshToken ps =
              (fst (fetch_profile ext endpoints accessToken) @
                 fst (decode_token ext (id_token ps)) @
                 GetTeamFromContext # fst (find_authenticationProvider ext tm domain),
               Inl OIDCMalformedUserInfoError)) \<and>
         (domain \<noteq> [] \<and>
          \<not> truthy (if truthy n then n
                     else if truthy (username_of ext e profile
                                       (snd (decode_token ext (id_token ps))))
                          then username_of ext e profile (snd (decode_token ext (id_token ps)))
                          else un) \<longrightarrow>
            prepare ext e endpoints ctx accessToken refreshToken ps =
              (fst (fetch_profile ext endpoints accessToken) @
                 fst (decode_token ext (id_token ps)) @
                 GetTeamFromContext # fst (find_authenticationProvider ext tm domain),
               Inl (AuthenticationError
                      (name_missing (OIDC_USERNAME_CLAIM e) (userInfoURL endpoints))))) \<and>
         (domain \<noteq> [] \<and>
          truthy (if truthy n then n
                  else if truthy (username_of ext e profile
                                    (snd (decode_token ext (id_token ps))))
                       then username_of ext e profile (snd (decode_token ext (id_token ps)))
                       else un) \<and>
          \<not> truthy (if truthy sub then sub else pid) \<longrightarrow>
            prepare ext e endpoints ctx accessToken refreshToken ps =
              (fst (fetch_profile ext endpoints accessToken) @
                 fst (decode_token ext (id_token ps)) @
                 GetTeamFromContext # fst (find_authenticationProvider ext tm domain),
               Inl (AuthenticationError (id_missing (userInfoURL endpoints)))))"
proof -
  let ?token = "snd (decode_token ext (id_token ps))"
  let ?T = "GetTeamFromContext # fst (find_authenticationProvider ext tm domain)"
  have res: "resolve_provider ext endpoints ctx profile ?token =
          (?T, if domain = [] then Inl OIDCMalformedUserInfoError
            else Inr \<lparr>r_email = em, r_team = tm, r_client = getClientFromContext ext ctx,
                 r_domain = domain, r_subdomain = slugifyDomain ext domain,
                 r_providerId = (case snd (find_authenticationProvider ext tm domain) of
                     Some p \<Rightarrow> row_providerId p | None \<Rightarrow> hostname)\<rparr>)"
    using resolve_of_email [OF em tr, of ext endpoints ctx] lookup_eq [OF tm dm hn] by simp
  note nm = names_eq [OF n un sub pid, of ext e endpoints ?token]
  have prep: "prepare ext e endpoints ctx accessToken refreshToken ps =
                (fst (fetch_profile ext endpoints accessToken) @
                   fst (decode_token ext (id_token ps)) @ ?T, Inl err)"
    if "identify ext e endpoints ctx accessToken refreshToken ps profile ?token = (?T, Inl err)"
    for err
    using that by (simp add: prepare_eq [OF fetch])
  show ?thesis
  proof (intro conjI impI)
    assume "domain = []"
    with res have "resolve_provider ext endpoints ctx profile ?token =
                     (?T, Inl OIDCMalformedUserInfoError)"
      by simp
    then have "identify ext e endpoints ctx accessToken refreshToken ps profile ?token =
                 (?T, Inl OIDCMalformedUserInfoError)"
      by (rule identify_of_resolve_failure)
    then show "prepare ext e endpoints ctx accessToken refreshToken ps =
              (fst (fetch_profile ext endpoints accessToken) @
                 fst (decode_token ext (id_token ps)) @ ?T, Inl OIDCMalformedUserInfoError)"
      by (rule prep)
  next
    assume a: "domain \<noteq> [] \<and>
          \<not> truthy (if truthy n then n
                     else if truthy (username_of ext e profile ?token)
                          then username_of ext e profile ?token else un)"
    with res obtain r where r: "resolve_provider ext endpoints ctx profile ?token = (?T, Inr r)"
      by simp
    from a nm have "name_and_profileId ext e endpoints profile ?token =
        ([], Inl (AuthenticationError
                    (name_missing (OIDC_USERNAME_CLAIM e) (userInfoURL endpoints))))"
      by simp
    from identify_of_names_failure [OF r this]
    show "prepare ext e endpoints ctx accessToken refreshToken ps =
              (fst (fetch_profile ext endpoints accessToken) @
                 fst (decode_token ext (id_token ps)) @ ?T,
               Inl (AuthenticationError
                      (name_missing (OIDC_USERNAME_CLAIM e) (userInfoURL endpoints))))"
      by (rule prep)
  next
    assume a: "domain \<noteq> [] \<and>
          truthy (if truthy n then n
                  else if truthy (username_of ext e profile ?token)
                       then username_of ext e profile ?token else un) \<and>
          \<not> truthy (if truthy sub then sub else pid)"
    with res obtain r where r: "resolve_provider ext endpoints ctx profile ?token = (?T, Inr r)"
      by simp
    from a nm have "name_and_profileId ext e endpoints profile ?token =
        ([], Inl (AuthenticationError (id_missing (userInfoURL endpoints))))"
      by simp
    from identify_of_names_failure [OF r this]
    show "prepare ext e endpoints ctx accessToken refreshToken ps =
              (fst (fetch_profile ext endpoints accessToken) @
                 fst (decode_token ext (id_token ps)) @ ?T,
               Inl (AuthenticationError (id_missing (userInfoURL endpoints))))"
      by (rule prep)
  qed
qed

text \<open>
  C3, amended. Every run of the callback either builds the provisioner's argument with a
  truthy email, name and subject id (non-empty when they are strings), or fails with an
  error before the provisioner is called, and that error is what \<open>done\<close> receives. Of
  the checks, that of the email alone comes before the resolver: when the selected email
  is falsy the callback fails with the email-missing error and the trace holds no lookup.
  The other three come after the lookup: with a truthy email, a team that is read, an
  email that parses and an authorization URL that parses, an empty domain, a missing
  name and a missing subject id are each rejected with a trace that holds the read of
  the team and the queries of the provider lookup.
\<close>

theorem required_fields_or_failure:
  "((\<exists>t args client.
       prepare ext e endpoints ctx accessToken refreshToken ps = (t, Inr (args, client)) \<and>
       truthy (u_email (arg_user args)) \<and> truthy (u_name (arg_user args)) \<and>
       truthy (a_providerId (arg_authentication args)) \<and>
       (\<forall>s. u_email (arg_user args) = JSStr s \<longrightarrow> s \<noteq> []) \<and>
       (\<forall>s. u_name (arg_user args) = JSStr s \<longrightarrow> s \<noteq> []) \<and>
       (\<forall>s. a_providerId (arg_authentication args) = JSStr s \<longrightarrow> s \<noteq> [])) \<or>
    (\<exists>t err.
       prepare ext e endpoints ctx accessToken refreshToken ps = (t, Inl err) \<and>
       list_all (\<lambda>ev. \<not> is_provision ev) t \<and>
       verify ext e endpoints ctx accessToken refreshToken ps =
         (t, Done (Some err) None None))) \<and>
   (snd (fetch_profile ext endpoints accessToken) = Inr profile \<and>
    email_of profile (snd (decode_token ext (id_token ps))) = ([], Inr email) \<and>
    \<not> truthy email \<longrightarrow>
      snd (prepare ext e endpoints ctx accessToken refreshToken ps) =
        Inl (AuthenticationError email_missing) \<and>
      list_all (\<lambda>ev. \<not> is_lookup ev)
        (fst (prepare ext e endpoints ctx accessToken refreshToken ps))) \<and>
   (snd (fetch_profile ext endpoints accessToken) = Inr profile \<and>
    email_of profile (snd (decode_token ext (id_token ps))) = ([], Inr em) \<and>
    truthy em \<and>
    getTeamFromContext ext ctx = Inr tm \<and>
    parseEmail ext em = Inr domain \<and>
    URL_hostname ext (authorizationURL endpoints) = Inr hostname \<and>
    property profile M_name = Inr n \<and> property profile M_username = Inr un \<and>
    property profile M_sub = Inr sub \<and> property profile M_id = Inr pid \<longrightarrow>
      (domain = [] \<longrightarrow>
            prepare ext e endpoints ctx accessToken refreshToken ps =
              (fst (fetch_profile ext endpoints accessToken) @
                 fst (decode_token ext (id_token ps)) @
                 GetTeamFromContext # fst (find_authenticationProvider ext tm domain),
               Inl OIDCMalformedUserInfoError)) \<and>
         (domain \<noteq> [] \<and>
          \<not> truthy (if truthy n then n
                     else if truthy (username_of ext e profile
                                       (snd (decode_token ext (id_token ps))))
                          then username_of ext e profile (snd (decode_token ext (id_token ps)))
                          else un) \<longrightarrow>
            prepare ext e endpoints ctx accessToken refreshToken ps =
              (fst (fetch_profile ext endpoints accessToken) @
                 fst (decode_token ext (id_token ps)) @
                 GetTeamFromContext # fst (find_authenticationProvider ext tm domain),
               Inl (AuthenticationError
                      (name_missing (OIDC_USERNAME_CLAIM e) (userInfoURL endpoints))))) \<and>
         (domain \<noteq> [] \<and>
          truthy (if truthy n then n
                  else if truthy (username_of ext e profile
                                    (snd (decode_token ext (id_token ps))))
                       then username_of ext e profile (snd (decode_token ext (id_token ps)))
                       else un) \<and>
          \<not> truthy (if truthy sub then sub else pid) \<longrightarrow>
            prepare ext e endpoints ctx accessToken refreshToken ps =
              (fst (fetch_profile ext endpoints accessToken) @
                 fst (decode_token ext (id_token ps)) @
                 GetTeamFromContext # fst (find_authenticationProvider ext tm domain),
               Inl (AuthenticationError (id_missing (userInfoURL endpoints))))))"
proof -
  note first = fields_or_failure [of ext e endpoints ctx accessToken refreshToken ps profile email]
  have late: "snd (fetch_profile ext endpoints accessToken) = Inr profile \<and>
    email_of profile (snd (decode_token ext (id_token ps))) = ([], Inr em) \<and>
    truthy em \<and>
    getTeamFromContext ext ctx = Inr tm \<and>
    parseEmail ext em = Inr domain \<and>
    URL_hostname ext (authorizationURL endpoints) = Inr hostname \<and>
    property profile M_name = Inr n \<and> property profile M_username = Inr un \<and>
    property profile M_sub = Inr sub \<and> property profile M_id = Inr pid \<longrightarrow>
      (domain = [] \<longrightarrow>
            prepare ext e endpoints ctx accessToken refreshToken ps =
              (fst (fetch_profile ext endpoints accessToken) @
                 fst (decode_token ext (id_token ps)) @
                 GetTeamFromContext # fst (find_authenticationProvider ext tm domain),
               Inl OIDCMalformedUserInfoError)) \<and>
         (domain \<noteq> [] \<and>
          \<not> truthy (if truthy n then n
                     else if truthy (username_of ext e profile
                                       (snd (decode_token ext (id_token ps))))
                          then username_of ext e profile (snd (decode_token ext (id_token ps)))
                          else un) \<longrightarrow>
            prepare ext e endpoints ctx accessToken refreshToken ps =
              (fst (fetch_profile ext endpoints accessToken) @
                 fst (decode_token ext (id_token ps)) @
                 GetTeamFromContext # fst (find_authenticationProvider ext tm domain),
               Inl (AuthenticationError
                      (name_missing (OIDC_USERNAME_CLAIM e) (userInfoURL endpoints))))) \<and>
         (domain \<noteq> [] \<and>
          truthy (if truthy n then n
                  else if truthy (username_of ext e profile
                                    (snd (decode_token ext (id_token ps))))
                       then username_of ext e profile (snd (decode_token ext (id_token ps)))
                       else un) \<and>
          \<not> truthy (if truthy sub then sub else pid) \<longrightarrow>
            prepare ext e endpoints ctx accessToken refreshToken ps =
              (fst (fetch_profile ext endpoints accessToken) @
                 fst (decode_token ext (id_token ps)) @
                 GetTeamFromContext # fst (find_authenticationProvider ext tm domain),
               Inl (AuthenticationError (id_missing (userInfoURL endpoints)))))"
    by (intro impI late_checks) blast+
  from first late show ?thesis by blast
qed

theorem required_fields_or_failure_witness:
  "snd (prepare (example_ext (Inr (JSObj [(''name'', JSStr ''Ann''), (''sub'', JSStr ''s1'')]))
                   (Inr (JSObj [])) (Some \<lparr>team_id = ''t1''\<rparr>) [])
          example_env example_endpoints example_context ''access'' ''refresh'' example_params) =
     Inl (AuthenticationError email_missing) \<and>
   list_all (\<lambda>ev. \<not> is_lookup ev)
     (fst (prepare (example_ext (Inr (JSObj [(''name'', JSStr ''Ann''), (''sub'', JSStr ''s1'')]))
                   (Inr (JSObj [])) (Some \<lparr>team_id = ''t1''\<rparr>) [])
          example_env example_endpoints example_context ''access'' ''refresh'' example_params)) \<and>
   prepare (example_ext (Inr (JSObj [(''email'', JSStr ''user@acme.io''), (''sub'', JSStr ''s1'')]))
              (Inr (JSObj [])) (Some \<lparr>team_id = ''t1''\<rparr>) [])
      example_env example_endpoints example_context ''access'' ''refresh'' example_params =
     ([Request GET ''https://idp.example.com/userinfo'' ''access'', GetTeamFromContext,
       FindOne \<lparr>where_name = ''oidc'', where_teamId = ''t1'',
                 where_providerId = Some ''acme.io''\<rparr>,
       FindOne \<lparr>where_name = ''oidc'', where_teamId = ''t1'', where_providerId = None\<rparr>],
      Inl (AuthenticationError
             (name_missing ''preferred_username'' ''https://idp.example.com/userinfo''))) \<and>
   prepare (example_ext (Inr (JSObj [(''email'', JSStr ''user@acme.io''), (''name'', JSStr ''Ann'')]))
              (Inr (JSObj [])) (Some \<lparr>team_id = ''t1''\<rparr>) [])
      example_env example_endpoints example_context ''access'' ''refresh'' example_params =
     ([Request GET ''https://idp.example.com/userinfo'' ''access'', GetTeamFromContext,
       FindOne \<lparr>where_name = ''oidc'', where_teamId = ''t1'',
                 where_providerId = Some ''acme.io''\<rparr>,
       FindOne \<lparr>where_name = ''oidc'', where_teamId = ''t1'', where_providerId = None\<rparr>],
      Inl (AuthenticationError (id_missing ''https://idp.example.com/userinfo''))) \<and>
   prepare (example_ext (Inr (JSObj [(''email'', JSStr ''user@''), (''name'', JSStr ''Ann''),
                                    (''sub'', JSStr ''s1'')]))
              (Inr (JSObj [])) (Some \<lparr>team_id = ''t1''\<rparr>) [])
      example_env example_endpoints example_context ''access'' ''refresh'' example_params =
     ([Request GET ''https://idp.example.com/userinfo'' ''access'', GetTeamFromContext,
       FindOne \<lparr>where_name = ''oidc'', where_teamId = ''t1'', where_providerId = Some []\<rparr>,
       FindOne \<lparr>where_name = ''oidc'', where_teamId = ''t1'', where_providerId = None\<rparr>],
      Inl OIDCMalformedUserInfoError)"
  using required_fields_or_failure [where
      ext = "example_ext (Inr (JSObj [(''name'', JSStr ''Ann''), (''sub'', JSStr ''s1'')]))
                   (Inr (JSObj [])) (Some \<lparr>team_id = ''t1''\<rparr>) []" and
      e = example_env and endpoints = example_endpoints and ctx = example_context and
      accessToken = "''access''" and refreshToken = "''refresh''" and ps = example_params and
      profile = "JSObj [(''name'', JSStr ''Ann''), (''sub'', JSStr ''s1'')]" and
      email = JSNull]
    required_fields_or_failure [where
      ext = "example_ext (Inr (JSObj [(''email'', JSStr ''user@acme.io''),
                                    (''sub'', JSStr ''s1'')]))
                   (Inr (JSObj [])) (Some \<lparr>team_id = ''t1''\<rparr>) []" and
      e = example_env and endpoints = example_endpoints and ctx = example_context and
      accessToken = "''access''" and refreshToken = "''refresh''" and ps = example_params and
      profile = "JSObj [(''email'', JSStr ''user@acme.io''), (''sub'', JSStr ''s1'')]" and
      em = "JSStr ''user@acme.io''" and tm = "Some \<lparr>team_id = ''t1''\<rparr>" and
      domain = "''acme.io''" and hostname = "''idp.example.com''" and
      n = JSUndefined and un = JSUndefined and sub = "JSStr ''s1''" and pid = JSUndefined]
    required_fields_or_failure [where
      ext = "example_ext (Inr (JSObj [(''email'', JSStr ''user@acme.io''),
                                    (''name'', JSStr ''Ann'')]))
                   (Inr (JSObj [])) (Some \<lparr>team_id = ''t1''\<rparr>) []" and
      e = example_env and endpoints = example_endpoints and ctx = example_context and
      accessToken = "''access''" and refreshToken = "''refresh''" and ps = example_params and
      profile = "JSObj [(''email'', JSStr ''user@acme.io''), (''name'', JSStr ''Ann'')]" and
      em = "JSStr ''user@acme.io''" and tm = "Some \<lparr>team_id = ''t1''\<rparr>" and
      domain = "''acme.io''" and hostname = "''idp.example.com''" and
      n = "JSStr ''Ann''" and un = JSUndefined and sub = JSUndefined and pid = JSUndefined]
    required_fields_or_failure [where
      ext = "example_ext (Inr (JSObj [(''email'', JSStr ''user@''), (''name'', JSStr ''Ann''),
                                    (''sub'', JSStr ''s1'')]))
                   (Inr (JSObj [])) (Some \<lparr>team_id = ''t1''\<rparr>) []" and
      e = example_env and endpoints = example_endpoints and ctx = example_context and
      accessToken = "''access''" and refreshToken = "''refresh''" and ps = example_params and
      profile = "JSObj [(''email'', JSStr ''user@''), (''name'', JSStr ''Ann''),
                        (''sub'', JSStr ''s1'')]" and
      em = "JSStr ''user@''" and tm = "Some \<lparr>team_id = ''t1''\<rparr>" and
      domain = "[]" and hostname = "''idp.example.com''" and
      n = "JSStr ''Ann''" and un = JSUndefined and sub = "JSStr ''s1''" and pid = JSUndefined]
  by (simp add: callback_defs)

end
